theory Spec2Isabelle
  imports Complex_Main
begin

section \<open>Domain utilities: currencies\<close>

text \<open>
  \<^verbatim>\<open>interface Currency { amount: number; currency: string }\<close>.
  The amount type is left as a parameter \<open>'n\<close>: the code only compares an amount with
  zero and adds two amounts, so the definitions need an order, a zero and an addition
  and nothing else about JavaScript numbers.
\<close>

record 'n Currency =
  amount :: 'n
  currency :: string

text \<open>Every \<^verbatim>\<open>throw new Error(msg)\<close> of the sources is the value \<open>Error msg\<close>.\<close>

datatype error = Error string

definition CurrencyUtils_create :: "'n::{ord,zero} \<Rightarrow> string \<Rightarrow> error + 'n Currency" where
  "CurrencyUtils_create a c =
     (if a < 0 then Inl (Error ''Amount cannot be negative'')
      else Inr \<lparr>amount = a, currency = c\<rparr>)"

definition CurrencyUtils_add :: "'n::plus Currency \<Rightarrow> 'n Currency \<Rightarrow> error + 'n Currency" where
  "CurrencyUtils_add a b =
     (if currency a \<noteq> currency b then Inl (Error ''Cannot add different currencies'')
      else Inr \<lparr>amount = amount a + amount b, currency = currency a\<rparr>)"

section \<open>Domain: reservations and the reservation service\<close>

text \<open>
  \<^verbatim>\<open>class Reservation\<close> has five read-only fields. The identifier field is called
  \<open>rid\<close> and the amount field \<open>price\<close> here, because \<open>id\<close> is the identity function
  of HOL and \<open>amount\<close> is already the field of \<open>Currency\<close>. \<open>Email\<close> is a branded
  string, and \<open>createdAt\<close> is kept as milliseconds since the epoch.
\<close>

record 'n Reservation =
  rid :: string
  name :: string
  email :: string
  price :: "'n Currency"
  createdAt :: int

text \<open>
  The two classes implementing \<^verbatim>\<open>DuplicatePolicy.check\<close>. A policy is the function
  that the service calls, so that a service can be built with any of them (the unit tests
  also build one from an object literal).
\<close>

type_synonym 'n DuplicatePolicy = "'n Reservation \<Rightarrow> 'n Reservation list \<Rightarrow> bool"

definition EmailDuplicatePolicy :: "'n DuplicatePolicy" where
  "EmailDuplicatePolicy reservation existing =
     list_ex (\<lambda>r. email r = email reservation) existing"

definition NoDuplicatePolicy :: "'n DuplicatePolicy" where
  "NoDuplicatePolicy reservation existing = False"

text \<open>
  \<^verbatim>\<open>private reservations: Map<string, Reservation>\<close>. A JavaScript \<open>Map\<close> keeps its
  entries in insertion order; \<open>set\<close> on a key that is present replaces the value where it
  stands, and on a new key appends the entry; \<open>delete\<close> reports whether the key was there.
\<close>

type_synonym ('k, 'v) js_map = "('k \<times> 'v) list"

fun map_set :: "'k \<Rightarrow> 'v \<Rightarrow> ('k, 'v) js_map \<Rightarrow> ('k, 'v) js_map" where
  "map_set k v [] = [(k, v)]"
| "map_set k v ((k', v') # m) =
     (if k' = k then (k, v) # m else (k', v') # map_set k v m)"

definition map_get :: "'k \<Rightarrow> ('k, 'v) js_map \<Rightarrow> 'v option" where
  "map_get k m = map_of m k"

definition map_has :: "'k \<Rightarrow> ('k, 'v) js_map \<Rightarrow> bool" where
  "map_has k m = list_ex (\<lambda>e. fst e = k) m"

definition map_delete :: "'k \<Rightarrow> ('k, 'v) js_map \<Rightarrow> bool \<times> ('k, 'v) js_map" where
  "map_delete k m = (map_has k m, filter (\<lambda>e. fst e \<noteq> k) m)"

definition map_values :: "('k, 'v) js_map \<Rightarrow> 'v list" where
  "map_values m = map snd m"

record 'n ReservationService =
  duplicatePolicy :: "'n DuplicatePolicy"
  reservations :: "(string, 'n Reservation) js_map"

definition new_ReservationService :: "'n DuplicatePolicy \<Rightarrow> 'n ReservationService" where
  "new_ReservationService p = \<lparr>duplicatePolicy = p, reservations = []\<rparr>"

text \<open>
  Each method returns its result together with the service after the call. A call that
  throws has not touched the map before the throw, so it returns the service it was
  given.
\<close>

definition createReservation ::
  "'n ReservationService \<Rightarrow> 'n Reservation \<Rightarrow> (error + 'n Reservation) \<times> 'n ReservationService" where
  "createReservation svc reservation =
     (let isDuplicate = duplicatePolicy svc reservation (map_values (reservations svc))
      in if isDuplicate then (Inl (Error ''Duplicate reservation detected''), svc)
         else (Inr reservation,
               svc\<lparr>reservations := map_set (rid reservation) reservation (reservations svc)\<rparr>))"

definition getReservation :: "'n ReservationService \<Rightarrow> string \<Rightarrow> 'n Reservation option" where
  "getReservation svc i = map_get i (reservations svc)"

definition getAllReservations :: "'n ReservationService \<Rightarrow> 'n Reservation list" where
  "getAllReservations svc = map_values (reservations svc)"

definition deleteReservation :: "'n ReservationService \<Rightarrow> string \<Rightarrow> bool \<times> 'n ReservationService" where
  "deleteReservation svc i =
     (let (r, m) = map_delete i (reservations svc) in (r, svc\<lparr>reservations := m\<rparr>))"

definition findByEmail :: "'n ReservationService \<Rightarrow> string \<Rightarrow> 'n Reservation list" where
  "findByEmail svc e = filter (\<lambda>r. email r = e) (map_values (reservations svc))"

section \<open>The playbook script: text tools\<close>

text \<open>
  \<^verbatim>\<open>run-qa-playbook.sh\<close> scrapes its numbers from logs with \<open>grep\<close>, \<open>sed\<close>,
  \<open>head\<close> and \<open>cut\<close>, and compares the mutation score with \<open>bc\<close>. The few
  behaviours of these tools that the script relies on are written out here. A file is
  \<open>None\<close> when it does not exist and otherwise the list of its lines. GNU \<open>grep\<close>
  (3.5 and later, in the C locale) takes a file with a NUL byte for binary data and
  prints none of its lines on standard output; the files are read in one piece.
\<close>

type_synonym text_file = "string list option"

definition binary :: "string list \<Rightarrow> bool" where
  "binary ls = list_ex (\<lambda>l. CHR 0x00 \<in> set l) ls"

definition text_lines :: "string list \<Rightarrow> string list" where
  "text_lines ls = (if binary ls then [] else ls)"

text \<open>
  A regular expression made of literal characters and \<open>.\<close> (any character), as the
  patterns \<^verbatim>\<open>prism mock\<close>, \<^verbatim>\<open>node server.cjs\<close> and \<^verbatim>\<open>mutation score of\<close>
  are: \<open>match_here\<close> matches it at the start of a text and \<open>search\<close> anywhere in it.
\<close>

fun match_here :: "string \<Rightarrow> string \<Rightarrow> bool" where
  "match_here [] s = True"
| "match_here (p # ps) [] = False"
| "match_here (p # ps) (c # cs) = ((p = CHR ''.'' \<or> p = c) \<and> match_here ps cs)"

fun search :: "string \<Rightarrow> string \<Rightarrow> bool" where
  "search p [] = match_here p []"
| "search p (c # cs) = (match_here p (c # cs) \<or> search p cs)"

text \<open>
  \<^verbatim>\<open>grep PATTERN file 2>/dev/null\<close>: the lines that match; nothing for a missing file
  and nothing for binary data.
\<close>

definition grep :: "string \<Rightarrow> text_file \<Rightarrow> string list" where
  "grep pat f = (case f of None \<Rightarrow> [] | Some ls \<Rightarrow> filter (search pat) (text_lines ls))"

text \<open>The rest of a text after a literal prefix, and after the leftmost occurrence of a literal.\<close>

fun strip_prefix :: "string \<Rightarrow> string \<Rightarrow> string option" where
  "strip_prefix [] s = Some s"
| "strip_prefix (p # ps) [] = None"
| "strip_prefix (p # ps) (c # cs) = (if p = c then strip_prefix ps cs else None)"

fun after_first :: "string \<Rightarrow> string \<Rightarrow> string option" where
  "after_first p [] = strip_prefix p []"
| "after_first p (c # cs) =
     (case strip_prefix p (c # cs) of Some r \<Rightarrow> Some r | None \<Rightarrow> after_first p cs)"

definition is_digit :: "char \<Rightarrow> bool" where
  "is_digit c = (c \<in> set ''0123456789'')"

text \<open>The bracket expression \<^verbatim>\<open>[0-9.]\<close>.\<close>

definition is_score_char :: "char \<Rightarrow> bool" where
  "is_score_char c = (is_digit c \<or> c = CHR ''.'')"

text \<open>
  \<^verbatim>\<open>sed -E 's/.*mutation score of ([0-9.]+).*/\1/'\<close> on one line. The leading
  \<^verbatim>\<open>.*\<close> is greedy, so the group is taken at the rightmost place where
  \<^verbatim>\<open>mutation score of \<close> is followed by a character of \<^verbatim>\<open>[0-9.]\<close>, and it is the
  longest run of such characters there. A line where the expression does not match is
  printed as it is.
\<close>

fun last_score :: "string \<Rightarrow> string option" where
  "last_score [] = None"
| "last_score (c # cs) =
     (case last_score cs of
        Some g \<Rightarrow> Some g
      | None \<Rightarrow>
          (case strip_prefix ''mutation score of '' (c # cs) of
             None \<Rightarrow> None
           | Some r \<Rightarrow> if takeWhile is_score_char r = [] then None
                       else Some (takeWhile is_score_char r)))"

definition sed_score :: "string \<Rightarrow> string" where
  "sed_score l = (case last_score l of None \<Rightarrow> l | Some g \<Rightarrow> g)"

text \<open>
  What \<^verbatim>\<open>$( ... | head -1)\<close> captures: the first line of the output, or the empty
  text when there is no output.
\<close>

definition first_line :: "string list \<Rightarrow> string" where
  "first_line ls = (case ls of [] \<Rightarrow> [] | l # _ \<Rightarrow> l)"

text \<open>
  \<^verbatim>\<open>grep -o '"mutationScore":[0-9.]*' file | head -1 | cut -d':' -f2\<close>: the first
  match is at the leftmost occurrence of the key in the first line that has one, and
  its second field is the run of \<^verbatim>\<open>[0-9.]\<close> after the colon. The status of the
  pipeline is the status of \<open>cut\<close>, which is 0.
\<close>

definition json_score :: "string list \<Rightarrow> string \<times> nat" where
  "json_score ls =
     (first_line (map (takeWhile is_score_char)
        (List.map_filter (after_first (CHR 0x22 # ''mutationScore'' @ [CHR 0x22, CHR '':'']))
           (text_lines ls))), 0)"

text \<open>\<^verbatim>\<open>: ${VAR:=0}\<close>: an unset or empty variable becomes \<open>0\<close>.\<close>

definition default0 :: "string \<Rightarrow> string" where
  "default0 v = (if v = [] then ''0'' else v)"

text \<open>
  Numerals. \<open>dec\<close> and \<open>oct\<close> read a run of digits in base ten and in base eight.
\<close>

definition digit_val :: "char \<Rightarrow> nat" where
  "digit_val c =
     (let i = length (takeWhile (\<lambda>d. d \<noteq> c) ''0123456789'') in if i < 10 then i else 0)"

definition dec :: "string \<Rightarrow> nat" where
  "dec ds = foldl (\<lambda>n c. 10 * n + digit_val c) 0 ds"

definition oct :: "string \<Rightarrow> nat" where
  "oct ds = foldl (\<lambda>n c. 8 * n + digit_val c) 0 ds"

text \<open>
  The integer operand that \<^verbatim>\<open>[ ... ]\<close> reads: white space, an optional sign, at
  least one digit, then blanks only; the number is decimal (a leading zero does not
  matter) and must fit into 64 bits with sign. On any other text the test fails with an
  error (status 2), which an \<open>if\<close> takes as false.
\<close>

definition is_space :: "char \<Rightarrow> bool" where
  "is_space c = (c \<in> set [CHR '' '', CHR 0x09, CHR 0x0A, CHR 0x0B, CHR 0x0C, CHR 0x0D])"

definition is_blank :: "char \<Rightarrow> bool" where
  "is_blank c = (c = CHR '' '' \<or> c = CHR 0x09)"

definition test_num :: "string \<Rightarrow> int option" where
  "test_num s =
     (let r = dropWhile is_space s;
          negative = (case r of [] \<Rightarrow> False | c # _ \<Rightarrow> c = CHR ''-'');
          r = (case r of [] \<Rightarrow> [] | c # r' \<Rightarrow> if c = CHR ''-'' \<or> c = CHR ''+'' then r' else r);
          ds = takeWhile is_digit r;
          v = (if negative then - int (dec ds) else int (dec ds))
      in if ds \<noteq> [] \<and> list_all is_blank (dropWhile is_digit r)
            \<and> - (2 ^ 63) \<le> v \<and> v \<le> 2 ^ 63 - 1
         then Some v else None)"

definition test_gt :: "string \<Rightarrow> int \<Rightarrow> bool" where
  "test_gt s k = (case test_num s of None \<Rightarrow> False | Some n \<Rightarrow> n > k)"

definition test_eq :: "string \<Rightarrow> int \<Rightarrow> bool" where
  "test_eq s k = (case test_num s of None \<Rightarrow> False | Some n \<Rightarrow> n = k)"

definition test_eq2 :: "string \<Rightarrow> string \<Rightarrow> bool" where
  "test_eq2 s t =
     (case test_num s of None \<Rightarrow> False
      | Some n \<Rightarrow> (case test_num t of None \<Rightarrow> False | Some m \<Rightarrow> n = m))"

definition test_ne2 :: "string \<Rightarrow> string \<Rightarrow> bool" where
  "test_ne2 s t =
     (case test_num s of None \<Rightarrow> False
      | Some n \<Rightarrow> (case test_num t of None \<Rightarrow> False | Some m \<Rightarrow> n \<noteq> m))"

text \<open>
  The value of a variable named inside \<^verbatim>\<open>$(( ... ))\<close>, if it has one. An empty
  variable counts as 0. A run of digits is a number in base ten, or in base eight when
  it has more than one digit and starts with \<open>0\<close>; a digit 8 or 9 is then an error
  (\<open>value too great for base\<close>). Numbers and results wrap around at 64 bits. The value
  of any other text depends on the variables of the shell, and is taken as given
  (\<open>other\<close>).
\<close>

definition wrap64 :: "int \<Rightarrow> int" where
  "wrap64 i = (i + 2 ^ 63) mod 2 ^ 64 - 2 ^ 63"

definition numeral_value :: "string \<Rightarrow> int option" where
  "numeral_value ds =
     (case ds of
        c # d # r \<Rightarrow>
          if c = CHR ''0''
          then (if list_all (\<lambda>x. digit_val x < 8) (d # r) then Some (wrap64 (int (oct ds)))
                else None)
          else Some (wrap64 (int (dec ds)))
      | _ \<Rightarrow> Some (wrap64 (int (dec ds))))"

definition arith :: "(string \<Rightarrow> int option) \<Rightarrow> string \<Rightarrow> int option" where
  "arith other s =
     (if s = [] then Some 0
      else if list_all is_digit s then numeral_value s
      else other s)"

text \<open>\<^verbatim>\<open>$((A + B))\<close> and \<^verbatim>\<open>$((A - B))\<close> for two variables with the values given.\<close>

definition arith_add :: "(string \<Rightarrow> int option) \<Rightarrow> string \<Rightarrow> string \<Rightarrow> int option" where
  "arith_add other a b =
     (case arith other a of None \<Rightarrow> None
      | Some x \<Rightarrow> (case arith other b of None \<Rightarrow> None | Some y \<Rightarrow> Some (wrap64 (x + y))))"

definition arith_sub :: "(string \<Rightarrow> int option) \<Rightarrow> string \<Rightarrow> string \<Rightarrow> int option" where
  "arith_sub other a b =
     (case arith other a of None \<Rightarrow> None
      | Some x \<Rightarrow> (case arith other b of None \<Rightarrow> None | Some y \<Rightarrow> Some (wrap64 (x - y))))"

text \<open>
  \<^verbatim>\<open>(( $(echo "$S >= 90" | bc -l) ))\<close>. \<open>bc\<close> reads a number written as digits with
  at most one point (a point alone is its variable \<open>last\<close>, which is 0 at the start);
  it compares exactly and prints 1 or 0. On any other text it prints a syntax error on
  standard error and nothing on standard output, and \<^verbatim>\<open>(( ))\<close> is false.
\<close>

definition bc_value :: "string \<Rightarrow> rat option" where
  "bc_value s =
     (let ip = takeWhile is_digit s; r = dropWhile is_digit s
      in case r of
           [] \<Rightarrow> if ip = [] then None else Some (of_nat (dec ip))
         | c # fp \<Rightarrow>
             if c = CHR ''.'' \<and> list_all is_digit fp
             then Some (of_nat (dec ip) + of_nat (dec fp) / 10 ^ length fp)
             else None)"

definition bc_ge :: "string \<Rightarrow> rat \<Rightarrow> bool" where
  "bc_ge s k = (case bc_value s of None \<Rightarrow> False | Some v \<Rightarrow> v \<ge> k)"

definition bc_lt :: "string \<Rightarrow> rat \<Rightarrow> bool" where
  "bc_lt s k = (case bc_value s of None \<Rightarrow> False | Some v \<Rightarrow> v < k)"

section \<open>The playbook script: processes, files and the run\<close>

text \<open>
  The process table is a list of process identifier and command line.
  \<^verbatim>\<open>pkill -f PATTERN\<close> signals every process whose full command line matches the
  pattern; the result is the identifiers signalled and the table without them. A
  process that is signalled ends, and a process stays in the table until it is
  signalled: a service that ends by itself is not modelled. The script discards the
  status of \<open>pkill\<close> (\<^verbatim>\<open>|| true\<close>).
\<close>

type_synonym process = "nat \<times> string"

definition pkill_f :: "string \<Rightarrow> process list \<Rightarrow> nat list \<times> process list" where
  "pkill_f pat ps =
     (map fst (filter (\<lambda>p. search pat (snd p)) ps), filter (\<lambda>p. \<not> search pat (snd p)) ps)"

text \<open>The commands that the script runs as verification stages, in the order of the script.\<close>

datatype stage = Validate | Karate | WdioUi | WdioApi | Mutation | Pbt

datatype colour = RED | GREEN | YELLOW | BLUE | NC

text \<open>
  What a run does, in order. A message is recorded with its colour (\<open>print_step\<close>
  prints in blue, \<open>print_success\<close> in green, \<open>print_error\<close> in red,
  \<open>print_warning\<close> in yellow, a plain \<open>echo\<close> in none) and its text as the script
  has it, variables not substituted and icons left out.
\<close>

datatype action =
    Pkill string "nat list"
  | Mkdir
  | Spawn nat string
  | Sleep nat
  | Curl string
  | Run stage
  | Cat string
  | Write string
  | Rm string
  | Say colour string

text \<open>
  Everything the script reads from outside: the processes that exist when it starts,
  whether \<^verbatim>\<open>.env.mock\<close> is there, the identifiers that the two background jobs get,
  the exit statuses of \<open>curl\<close> and of the stage commands, the artifacts and logs that
  the stages leave, and the clock. A field named \<open>cap_...\<close> is the text captured by
  the command substitution of the line given:
  \<open>cap_ui\<close>, \<open>cap_api\<close> lines 135, 136, 329, 330 (each ends in \<^verbatim>\<open>|| echo "0"\<close>);
  \<open>cap_pbt_results\<close> lines 176, 206; \<open>cap_pbt_passed\<close>, \<open>cap_pbt_total\<close> lines 278, 279;
  \<open>cap_killed_table\<close>, \<open>cap_survived_table\<close> lines 283, 284; \<open>cap_killed_summary\<close>,
  \<open>cap_survived_summary\<close> lines 288, 291; \<open>cap_karate_passed\<close>, \<open>cap_karate_failed\<close>
  lines 297, 298. \<open>arith_other\<close> is the value that the shell's arithmetic gives to a
  text that is not a run of digits, if it gives one.
\<close>

record env =
  procs0 :: "process list"
  env_mock0 :: bool
  PRISM_PID :: nat
  WEB_SERVER_PID :: nat
  curl_mock :: nat
  curl_web :: nat
  exit_status :: "stage \<Rightarrow> nat"
  karate_summary_html :: bool
  mutation_json :: text_file
  stryker_log :: text_file
  pbt_log_exists :: bool
  cap_ui :: string
  cap_api :: string
  cap_pbt_results :: string
  cap_pbt_passed :: string
  cap_pbt_total :: string
  cap_killed_table :: string
  cap_survived_table :: string
  cap_killed_summary :: string
  cap_survived_summary :: string
  cap_karate_passed :: string
  cap_karate_failed :: string
  arith_other :: "string \<Rightarrow> int option"
  clock :: string

text \<open>The variables of the final analysis, as they stand after the defaults of lines 301-307.\<close>

record metrics =
  KARATE_COUNT :: string
  KARATE_PASSED :: string
  KARATE_FAILED :: string
  UI_WDIO_COUNT :: string
  API_WDIO_COUNT :: string
  MUTATION_SCORE :: string
  MUTANTS_KILLED :: string
  MUTANTS_SURVIVED :: string
  PBT_PASSED :: string
  PBT_TOTAL :: string

datatype overall = EXCELLENT | ISSUES_FOUND nat

text \<open>
  \<^verbatim>\<open>reports/analysis-summary.txt\<close>, one field for each value written into it, as
  the text written.
\<close>

record summary =
  sum_date :: string
  sum_scenarios :: string
  sum_karate_passed :: string
  sum_karate_failed :: string
  sum_ui_tests :: string
  sum_api_tests :: string
  sum_wdio_total :: string
  sum_score :: string
  sum_killed :: string
  sum_survived :: string
  sum_mutants_total :: string
  sum_pbt_total :: string
  sum_pbt_passed :: string
  sum_pbt_failed :: string
  sum_overall :: overall

text \<open>
  The state of a run: the process table, the small files that the script writes and
  reads back (path and content), the content of the summary file if this run has
  written it, and what has been done so far.
\<close>

record state =
  procs :: "process list"
  files :: "(string, string) js_map"
  analysis_summary :: "summary option"
  trace :: "action list"

datatype outcome = Exited nat state | Running state

definition emit :: "action \<Rightarrow> state \<Rightarrow> state" where
  "emit a s = s\<lparr>trace := trace s @ [a]\<rparr>"

definition say :: "colour \<Rightarrow> string \<Rightarrow> state \<Rightarrow> state" where
  "say l m s = emit (Say l m) s"

definition pkill :: "string \<Rightarrow> state \<Rightarrow> state" where
  "pkill pat s = (let (ks, ps) = pkill_f pat (procs s) in emit (Pkill pat ks) (s\<lparr>procs := ps\<rparr>))"

definition spawn :: "nat \<Rightarrow> string \<Rightarrow> state \<Rightarrow> state" where
  "spawn pid cmd s = emit (Spawn pid cmd) (s\<lparr>procs := procs s @ [(pid, cmd)]\<rparr>)"

definition write_file :: "string \<Rightarrow> string \<Rightarrow> state \<Rightarrow> state" where
  "write_file path content s = emit (Write path) (s\<lparr>files := map_set path content (files s)\<rparr>)"

definition rm_f :: "string \<Rightarrow> state \<Rightarrow> state" where
  "rm_f path s = emit (Rm path) (s\<lparr>files := snd (map_delete path (files s))\<rparr>)"

definition cat_or_0 :: "string \<Rightarrow> state \<Rightarrow> string" where
  "cat_or_0 path s = (case map_get path (files s) of None \<Rightarrow> ''0'' | Some c \<Rightarrow> c)"

definition initial :: "env \<Rightarrow> state" where
  "initial e =
     \<lparr>procs = procs0 e,
      files = (if env_mock0 e then [(''.env.mock'', ''BASE_URL=http://127.0.0.1:4010'')] else []),
      analysis_summary = None,
      trace = []\<rparr>"

text \<open>A number written in decimal, as an arithmetic expansion prints it.\<close>

function show_nat :: "nat \<Rightarrow> string" where
  "show_nat n =
     (if n < 10 then [''0123456789'' ! n]
      else show_nat (n div 10) @ [''0123456789'' ! (n mod 10)])"
  by pat_completeness auto
termination
  by (relation "measure id") auto

declare show_nat.simps [simp del]

definition show_int :: "int \<Rightarrow> string" where
  "show_int i = (if i < 0 then CHR ''-'' # show_nat (nat (- i)) else show_nat (nat i))"

text \<open>
  \<^verbatim>\<open>VAR=$(( ... ))\<close> as a command of its own. When the expansion fails the shell
  prints the error and goes on with the next command, also under \<^verbatim>\<open>set -e\<close>, and
  the variable keeps the value it had.
\<close>

definition assign_arith :: "string \<Rightarrow> int option \<Rightarrow> string" where
  "assign_arith old r = (case r of None \<Rightarrow> old | Some n \<Rightarrow> show_int n)"

subsection \<open>Steps 1 to 8\<close>

text \<open>
  Lines 53-89. The script runs under \<^verbatim>\<open>set -e\<close>; the commands of this step either
  have their status discarded (\<^verbatim>\<open>|| true\<close>), run in the background (\<^verbatim>\<open>&\<close>) or
  stand in the condition of an \<open>if\<close>. The health check of the mock server accepts the
  statuses 0 and 22 of \<^verbatim>\<open>curl -f\<close>; otherwise the script leaves with \<^verbatim>\<open>exit 1\<close>.
\<close>

definition step1 :: "env \<Rightarrow> state \<Rightarrow> outcome" where
  "step1 e s0 =
     (let s = say BLUE ''STEP 1: Starting Prism Mock Server'' s0;
          s = pkill ''prism mock'' s;
          s = pkill ''node server.cjs'' s;
          s = emit Mkdir s;
          s = spawn (PRISM_PID e)
                ''npx prism mock openapi/reservations.yaml --port 4010 --host 127.0.0.1'' s;
          s = spawn (WEB_SERVER_PID e) ''node server.cjs'' s;
          s = emit (Sleep 3) s;
          s = emit (Curl ''http://127.0.0.1:4010'') s
      in if curl_mock e = 0 \<or> curl_mock e = 22 then
           (let s = say GREEN ''Mock server started on port 4010 (PID: $PRISM_PID)'' s;
                s = emit (Curl ''http://127.0.0.1:8080'') s;
                s = (if curl_web e = 0
                     then say GREEN ''Web server started on port 8080 (PID: $WEB_SERVER_PID)'' s
                     else say YELLOW ''Web server may not have started correctly'' s);
                s = write_file ''.env.mock'' ''BASE_URL=http://127.0.0.1:4010'' s;
                s = say GREEN ''Created .env.mock'' s
            in Running s)
         else Exited 1 (say RED ''Failed to start mock server'' s))"

text \<open>Lines 94-102: bundle validation; a nonzero status ends the script with \<^verbatim>\<open>exit 1\<close>.\<close>

definition step2 :: "env \<Rightarrow> state \<Rightarrow> outcome" where
  "step2 e s0 =
     (let s = say BLUE ''STEP 2: Validating Test Data Bundle'' s0;
          s = emit (Run Validate) s
      in if exit_status e Validate = 0
         then Running (say GREEN ''Test data bundle validation passed'' s)
         else (let s = say RED ''Test data bundle validation failed'' s;
                   s = emit (Cat ''logs/ajv-validation.log'') s
               in Exited 1 s))"

text \<open>Lines 107-116: the Karate command ends in \<^verbatim>\<open>|| true\<close>.\<close>

definition step3 :: "env \<Rightarrow> state \<Rightarrow> state" where
  "step3 e s0 =
     (let s = say BLUE ''STEP 3: Running Karate Contract Tests'' s0;
          s = emit (Run Karate) s
      in if karate_summary_html e
         then say GREEN ''Karate tests completed: $KARATE_SCENARIOS'' s
         else say YELLOW ''Karate report not found'' s)"

text \<open>Lines 121-152: both WebDriverIO commands end in \<^verbatim>\<open>|| true\<close>.\<close>

definition step4 :: "env \<Rightarrow> state \<Rightarrow> state" where
  "step4 e s0 =
     (let s = say BLUE ''STEP 4: Running WebDriverIO E2E Tests'' s0;
          s = say NC ''Running UI tests (without API status verification)...'' s;
          s = emit (Run WdioUi) s;
          s = say NC ''Running API tests (with status code verification)...'' s;
          s = emit (Run WdioApi) s;
          s = emit (Write ''logs/wdio-execution.log'') s;
          UI_PASSED = cap_ui e;
          API_PASSED = cap_api e;
          TOTAL_WDIO_PASSED = assign_arith [] (arith_add (arith_other e) UI_PASSED API_PASSED);
          s = (if test_gt UI_PASSED 0
               then say GREEN ''WDIO UI tests completed: $UI_PASSED tests passed'' s
               else say YELLOW ''WDIO UI tests: no tests passed'' s);
          s = (if test_gt API_PASSED 0
               then say GREEN ''WDIO API tests completed: $API_PASSED tests passed'' s
               else say YELLOW ''WDIO API tests failed (CDP not available)'' s)
      in write_file ''reports/analysis/wdio-count.txt'' TOTAL_WDIO_PASSED s)"

text \<open>Lines 157-166: the Stryker command ends in \<^verbatim>\<open>|| true\<close>.\<close>

definition step5 :: "env \<Rightarrow> state \<Rightarrow> state" where
  "step5 e s0 =
     (let s = say BLUE ''STEP 5: Running Mutation Testing (PR Mode)'' s0;
          s = emit (Run Mutation) s
      in case mutation_json e of
           Some ls \<Rightarrow> say GREEN ''Mutation testing completed with score: ${MUTATION_SCORE}%'' s
         | None \<Rightarrow> say RED ''Mutation testing failed'' s)"

text \<open>
  Lines 171-180. The property-test command is a simple command with no \<^verbatim>\<open>|| true\<close>:
  under \<^verbatim>\<open>set -e\<close> a nonzero status ends the script there, with that status, before
  the test of \<^verbatim>\<open>$?\<close> on the next line is reached.
\<close>

definition step6 :: "env \<Rightarrow> state \<Rightarrow> outcome" where
  "step6 e s0 =
     (let s = say BLUE ''STEP 6: Running Property-Based Testing'' s0;
          s = emit (Run Pbt) s;
          status = exit_status e Pbt
      in if status \<noteq> 0 then Exited status s
         else if status = 0 then Running (say GREEN ''PBT completed: $PBT_RESULTS'' s)
         else Running (say RED ''PBT tests failed'' s))"

text \<open>
  Lines 198-202: the content of \<^verbatim>\<open>reports/analysis/mutation-score.txt\<close>. The
  alternative \<^verbatim>\<open>|| echo "0"\<close> is taken on a nonzero status of the pipeline.
\<close>

definition mutation_score_txt :: "text_file \<Rightarrow> string" where
  "mutation_score_txt json =
     (case json of
        Some ls \<Rightarrow> (let (out, status) = json_score ls in if status = 0 then out else ''0'')
      | None \<Rightarrow> ''0'')"

text \<open>
  Lines 185-250. The report \<^verbatim>\<open>reports/findings.md\<close> is a here-document with a quoted
  delimiter, a fixed text; only the fact that it is written is recorded.
\<close>

definition step7 :: "env \<Rightarrow> state \<Rightarrow> state" where
  "step7 e s0 =
     (let s = say BLUE ''STEP 7: Analyzing and Correlating Test Results'' s0;
          s = write_file ''reports/analysis/karate-count.txt''
                (if karate_summary_html e then ''6'' else ''0'') s;
          s = write_file ''reports/analysis/wdio-count.txt'' ''0'' s;
          s = write_file ''reports/analysis/mutation-score.txt''
                (mutation_score_txt (mutation_json e)) s;
          s = write_file ''reports/analysis/pbt-summary.txt''
                (if pbt_log_exists e then cap_pbt_results e else ''Tests: N/A'') s;
          s = emit (Write ''reports/findings.md'') s
      in say GREEN ''Findings report generated at reports/findings.md'' s)"

text \<open>Lines 255-264: the cleanup.\<close>

definition step8 :: "state \<Rightarrow> state" where
  "step8 s0 =
     (let s = say BLUE ''STEP 8: Cleanup - Stopping Servers'' s0;
          s = pkill ''prism mock'' s;
          s = pkill ''node server.cjs'' s;
          s = rm_f ''.env.mock'' s
      in say GREEN ''Servers stopped and cleaned up'' s)"

subsection \<open>Final analysis\<close>

text \<open>
  Line 276: the mutation score scraped from the Stryker log, with the status of the
  pipeline, which is the status of \<open>head\<close>.
\<close>

definition stryker_score :: "text_file \<Rightarrow> string \<times> nat" where
  "stryker_score f = (first_line (map sed_score (grep ''mutation score of'' f)), 0)"

text \<open>\<^verbatim>\<open>$(pipeline || echo "0")\<close>: a failing pipeline has \<open>0\<close> printed after its output.\<close>

definition or_echo0 :: "string \<times> nat \<Rightarrow> string" where
  "or_echo0 p = (let (out, status) = p in if status = 0 then out else out @ ''0'')"

text \<open>Lines 276 and 301 together: the value of \<open>MUTATION_SCORE\<close> in the analysis.\<close>

definition final_mutation_score :: "text_file \<Rightarrow> string" where
  "final_mutation_score f = default0 (or_echo0 (stryker_score f))"

text \<open>
  The variables with the two sums of the script as well, and the value of the
  expansion \<^verbatim>\<open>$((PBT_TOTAL - PBT_PASSED))\<close> of lines 366 and 450, if it has one.
\<close>

record analysis_vars = metrics +
  WDIO_COUNT :: string
  MUTANTS_TOTAL :: string
  PBT_FAILED :: "int option"

text \<open>
  Lines 272-307 and 329-331. \<open>MUTANTS_TOTAL\<close> is set on line 294, before the defaults,
  and is unset before that; \<open>WDIO_COUNT\<close> is read from its file on line 273 and set
  again on line 331.
\<close>

definition extract_metrics :: "env \<Rightarrow> state \<Rightarrow> analysis_vars" where
  "extract_metrics e s =
     (let karate_count = cat_or_0 ''reports/analysis/karate-count.txt'' s;
          mutation_score = or_echo0 (stryker_score (stryker_log e));
          pbt_passed = cap_pbt_passed e;
          pbt_total = cap_pbt_total e;
          killed = cap_killed_table e;
          survived = cap_survived_table e;
          killed = (if killed = [] \<or> killed = ''0'' then cap_killed_summary e else killed);
          survived = (if survived = [] \<or> survived = ''0'' then cap_survived_summary e
                      else survived);
          mutants_total = assign_arith [] (arith_add (arith_other e) killed survived);
          karate_passed = cap_karate_passed e;
          karate_failed = cap_karate_failed e;
          ui = cap_ui e;
          api = cap_api e;
          wdio_count = cat_or_0 ''reports/analysis/wdio-count.txt'' s;
          wdio_count = assign_arith wdio_count (arith_add (arith_other e) ui api)
      in \<lparr>KARATE_COUNT = karate_count,
          KARATE_PASSED = default0 karate_passed,
          KARATE_FAILED = default0 karate_failed,
          UI_WDIO_COUNT = ui,
          API_WDIO_COUNT = api,
          MUTATION_SCORE = default0 mutation_score,
          MUTANTS_KILLED = default0 killed,
          MUTANTS_SURVIVED = default0 survived,
          PBT_PASSED = default0 pbt_passed,
          PBT_TOTAL = default0 pbt_total,
          WDIO_COUNT = wdio_count,
          MUTANTS_TOTAL = mutants_total,
          PBT_FAILED = arith_sub (arith_other e) (default0 pbt_total) (default0 pbt_passed)\<rparr>)"

text \<open>Lines 320-371: the status line of each of the four sections.\<close>

definition karate_status :: "('a metrics_scheme) \<Rightarrow> colour \<times> string" where
  "karate_status m =
     (if test_eq (KARATE_FAILED m) 0 then (GREEN, ''ALL PASSED'') else (RED, ''SOME FAILURES''))"

definition wdio_status :: "('a metrics_scheme) \<Rightarrow> colour \<times> string" where
  "wdio_status m =
     (if test_gt (UI_WDIO_COUNT m) 0 then (GREEN, ''UI TESTS WORKING'')
      else if test_gt (API_WDIO_COUNT m) 0 then (GREEN, ''API TESTS WORKING'')
      else (YELLOW, ''No tests passed''))"

definition mutation_status :: "string \<Rightarrow> colour \<times> string" where
  "mutation_status score =
     (if bc_ge score 90 then (GREEN, ''EXCELLENT (>=90%)'')
      else if bc_ge score 80 then (GREEN, ''GOOD (>=80%)'')
      else if bc_ge score 70 then (YELLOW, ''ACCEPTABLE (>=70%)'')
      else (RED, ''NEEDS IMPROVEMENT (<70%)''))"

definition pbt_status :: "('a metrics_scheme) \<Rightarrow> colour \<times> string" where
  "pbt_status m =
     (if test_eq2 (PBT_PASSED m) (PBT_TOTAL m) \<and> test_gt (PBT_TOTAL m) 0
      then (GREEN, ''ALL PASSED'') else (RED, ''SOME FAILURES''))"

text \<open>
  Lines 380-409: the overall assessment. Its state is the counter \<open>TOTAL_ISSUES\<close> and
  the lines echoed so far; each \<open>if\<close> of the script is one function on that state.
\<close>

type_synonym assessment = "nat \<times> (colour \<times> string) list"

definition check_karate :: "('a metrics_scheme) \<Rightarrow> assessment \<Rightarrow> assessment" where
  "check_karate m a =
     (if test_gt (KARATE_FAILED m) 0
      then (fst a + 1, snd a @ [(RED, ''Contract tests have failures'')]) else a)"

definition check_ui :: "('a metrics_scheme) \<Rightarrow> assessment \<Rightarrow> assessment" where
  "check_ui m a =
     (if test_eq (UI_WDIO_COUNT m) 0
      then (fst a + 1, snd a @ [(YELLOW, ''UI tests need fixes'')]) else a)"

definition check_api :: "('a metrics_scheme) \<Rightarrow> assessment \<Rightarrow> assessment" where
  "check_api m a =
     (if test_eq (API_WDIO_COUNT m) 0
      then (fst a, snd a @ [(YELLOW, ''API tests skipped (CDP not available - expected)'')])
      else a)"

definition check_score :: "('a metrics_scheme) \<Rightarrow> assessment \<Rightarrow> assessment" where
  "check_score m a =
     (if bc_lt (MUTATION_SCORE m) 80
      then (fst a + 1,
            snd a @ [(YELLOW, ''Mutation score below 80% - consider adding more tests'')])
      else a)"

definition check_survived :: "('a metrics_scheme) \<Rightarrow> assessment \<Rightarrow> assessment" where
  "check_survived m a =
     (if test_gt (MUTANTS_SURVIVED m) 0
      then (fst a, snd a @ [(YELLOW, ''$MUTANTS_SURVIVED mutant(s) survived - review test coverage'')])
      else a)"

definition check_pbt :: "('a metrics_scheme) \<Rightarrow> assessment \<Rightarrow> assessment" where
  "check_pbt m a =
     (if test_ne2 (PBT_PASSED m) (PBT_TOTAL m)
      then (fst a + 1, snd a @ [(RED, ''Property-based tests have failures'')]) else a)"

definition overall_assessment :: "('a metrics_scheme) \<Rightarrow> assessment" where
  "overall_assessment m =
     check_pbt m (check_survived m (check_score m (check_api m (check_ui m
       (check_karate m (0, []))))))"

definition TOTAL_ISSUES :: "('a metrics_scheme) \<Rightarrow> nat" where
  "TOTAL_ISSUES m = fst (overall_assessment m)"

definition issues :: "('a metrics_scheme) \<Rightarrow> (colour \<times> string) list" where
  "issues m = snd (overall_assessment m)"

text \<open>
  Lines 426-453: the text of the summary file; the date is the only value taken from the
  clock. The here-document holds the expansion \<^verbatim>\<open>$((PBT_TOTAL - PBT_PASSED))\<close>: when
  that fails there is no text.
\<close>

definition make_summary :: "string \<Rightarrow> analysis_vars \<Rightarrow> summary option" where
  "make_summary date m =
     (case PBT_FAILED m of
        None \<Rightarrow> None
      | Some n \<Rightarrow>
          Some \<lparr>sum_date = date,
                sum_scenarios = KARATE_COUNT m,
                sum_karate_passed = KARATE_PASSED m,
                sum_karate_failed = KARATE_FAILED m,
                sum_ui_tests = UI_WDIO_COUNT m,
                sum_api_tests = API_WDIO_COUNT m,
                sum_wdio_total = WDIO_COUNT m,
                sum_score = MUTATION_SCORE m,
                sum_killed = MUTANTS_KILLED m,
                sum_survived = MUTANTS_SURVIVED m,
                sum_mutants_total = MUTANTS_TOTAL m,
                sum_pbt_total = PBT_TOTAL m,
                sum_pbt_passed = PBT_PASSED m,
                sum_pbt_failed = show_int n,
                sum_overall =
                  (if TOTAL_ISSUES m = 0 then EXCELLENT else ISSUES_FOUND (TOTAL_ISSUES m))\<rparr>)"

text \<open>
  Lines 269-462. Of the terminal output the four status lines, the lines of the overall
  assessment and the closing messages are recorded. When the here-document of the
  summary cannot be expanded, \<open>cat\<close> is not run, the redirection has left the file
  empty, and the command fails: under \<^verbatim>\<open>set -e\<close> the script ends there with
  status 1. Otherwise the last command of the script is an \<open>echo\<close> or
  \<open>print_success\<close> in either branch of the last \<open>if\<close>.
\<close>

definition say_line :: "state \<Rightarrow> colour \<times> string \<Rightarrow> state" where
  "say_line s l = say (fst l) (snd l) s"

definition final_analysis :: "env \<Rightarrow> state \<Rightarrow> outcome" where
  "final_analysis e s0 =
     (let s = say BLUE ''QA PLAYBOOK EXECUTION COMPLETED'' s0;
          m = extract_metrics e s;
          s = say_line s (karate_status m);
          s = say_line s (wdio_status m);
          s = say_line s (mutation_status (MUTATION_SCORE m));
          s = say_line s (pbt_status m);
          s = foldl say_line s (issues m);
          s = (if TOTAL_ISSUES m = 0
               then say GREEN ''No critical issues found! Quality is excellent!'' s
               else say YELLOW ''Found $TOTAL_ISSUES area(s) needing attention'' s)
      in case make_summary (clock e) m of
           None \<Rightarrow> Exited 1 (write_file ''reports/analysis-summary.txt'' [] s)
         | Some text \<Rightarrow>
             (let s = emit (Write ''reports/analysis-summary.txt'')
                        (s\<lparr>analysis_summary := Some text\<rparr>);
                  s = say GREEN ''Analysis saved to reports/analysis-summary.txt'' s
              in if TOTAL_ISSUES m = 0
                 then Running (say GREEN ''All steps completed successfully!'' s)
                 else Running (say YELLOW ''Playbook completed with $TOTAL_ISSUES warning(s)'' s)))"

subsection \<open>The whole script\<close>

text \<open>
  A run gives the exit status of the script and the state it leaves. The script has no
  \<open>trap\<close>: an \<open>exit\<close>, or a failing command under \<^verbatim>\<open>set -e\<close>, ends it on the spot.
  A script that runs to its end leaves with the status of its last command, which is 0.
\<close>

definition run_qa_playbook :: "env \<Rightarrow> nat \<times> state" where
  "run_qa_playbook e =
     (case step1 e (initial e) of
        Exited c s \<Rightarrow> (c, s)
      | Running s1 \<Rightarrow>
          (case step2 e s1 of
             Exited c s \<Rightarrow> (c, s)
           | Running s2 \<Rightarrow>
               (case step6 e (step5 e (step4 e (step3 e s2))) of
                  Exited c s \<Rightarrow> (c, s)
                | Running s6 \<Rightarrow>
                    (case final_analysis e (step8 (step7 e s6)) of
                       Exited c s \<Rightarrow> (c, s)
                     | Running s9 \<Rightarrow> (0, s9)))))"

text \<open>What is read off the outcome of a step: the status it left with, if it did, and the state.\<close>

fun exit_of :: "outcome \<Rightarrow> nat option" where
  "exit_of (Exited c s) = Some c"
| "exit_of (Running s) = None"

fun state_of :: "outcome \<Rightarrow> state" where
  "state_of (Exited c s) = s"
| "state_of (Running s) = s"

text \<open>
  What is read off a trace: the stage commands invoked, in order; how often a process
  was signalled; how often \<^verbatim>\<open>.env.mock\<close> was removed.
\<close>

definition stages_run :: "action list \<Rightarrow> stage list" where
  "stages_run tr = List.map_filter (\<lambda>a. case a of Run st \<Rightarrow> Some st | _ \<Rightarrow> None) tr"

definition signals :: "nat \<Rightarrow> action \<Rightarrow> bool" where
  "signals pid a = (case a of Pkill pat ks \<Rightarrow> pid \<in> set ks | _ \<Rightarrow> False)"

definition times_signalled :: "nat \<Rightarrow> action list \<Rightarrow> nat" where
  "times_signalled pid tr = length (filter (signals pid) tr)"

definition removals :: "action list \<Rightarrow> nat" where
  "removals tr = length (filter (\<lambda>a. a = Rm ''.env.mock'') tr)"

text \<open>
  The number of issues that the final analysis of a run counts, and the value that the
  expansion \<^verbatim>\<open>$((PBT_TOTAL - PBT_PASSED))\<close> has in it, if it has one.
\<close>

definition issue_count :: "env \<Rightarrow> nat" where
  "issue_count e = TOTAL_ISSUES (extract_metrics e (initial e))"

definition pbt_failed_count :: "env \<Rightarrow> int option" where
  "pbt_failed_count e = PBT_FAILED (extract_metrics e (initial e))"

definition running :: "nat \<Rightarrow> state \<Rightarrow> bool" where
  "running pid s = (pid \<in> fst ` set (procs s))"

definition file_exists :: "string \<Rightarrow> state \<Rightarrow> bool" where
  "file_exists path s = map_has path (files s)"

section \<open>Concrete runs and inputs\<close>

text \<open>
  A run where every command succeeds: the mock server answers the probe with an HTTP
  error page (status 22 of \<^verbatim>\<open>curl -f\<close>), the mutation score is 95.16 and all counts
  are clean. An unrelated process is running beside the two services.
\<close>

definition env_ok :: env where
  \<open>env_ok =
     \<lparr>procs0 = [(1, ''/sbin/init''), (977, ''tail -f notes on prism mock.txt'')],
      env_mock0 = False,
      PRISM_PID = 4001,
      WEB_SERVER_PID = 4002,
      curl_mock = 22,
      curl_web = 0,
      exit_status = (\<lambda>st. 0),
      karate_summary_html = True,
      mutation_json = Some [''{"schemaVersion":"1.0","mutationScore":95.16,"files":{}}''],
      stryker_log =
        Some [''INFO MutationTestExecutor Done in 9 seconds.'',
              ''Final mutation score of 95.16 is greater than or equal to break threshold 80''],
      pbt_log_exists = True,
      cap_ui = ''5'',
      cap_api = ''0'',
      cap_pbt_results = ''Tests:       23 passed, 23 total'',
      cap_pbt_passed = ''23'',
      cap_pbt_total = ''23'',
      cap_killed_table = ''59'',
      cap_survived_table = ''3'',
      cap_killed_summary = ''59'',
      cap_survived_summary = ''3'',
      cap_karate_passed = ''6'',
      cap_karate_failed = ''0'',
      arith_other = (\<lambda>t. None),
      clock = ''2025-01-15 10:00:00''\<rparr>\<close>

text \<open>The mock server does not answer: \<open>curl\<close> cannot connect (status 7).\<close>

definition env_mock_down :: env where
  "env_mock_down = env_ok\<lparr>curl_mock := 7\<rparr>"

text \<open>The data bundle is invalid: \<^verbatim>\<open>tools/validate.mjs\<close> leaves with status 2.\<close>

definition env_bundle_invalid :: env where
  "env_bundle_invalid = env_ok\<lparr>exit_status := (\<lambda>st. if st = Validate then 2 else 0)\<rparr>"

text \<open>One contract scenario fails; everything else is as in \<open>env_ok\<close>.\<close>

definition env_karate_failed :: env where
  "env_karate_failed =
     env_ok\<lparr>exit_status := (\<lambda>st. if st = Karate then 1 else 0),
            cap_karate_passed := ''5'', cap_karate_failed := ''1''\<rparr>"

text \<open>
  Everything succeeds, and the log of the property tests shows the counts with a leading
  zero, \<open>08 passed, 08 total\<close>.
\<close>

definition env_counts_08 :: env where
  "env_counts_08 =
     env_ok\<lparr>cap_pbt_results := ''Tests:       08 passed, 08 total'',
            cap_pbt_passed := ''08'', cap_pbt_total := ''08''\<rparr>"

text \<open>One property test fails, so that \<^verbatim>\<open>npm run test:pbt\<close> leaves with status 1.\<close>

definition env_pbt_failed :: env where
  "env_pbt_failed =
     env_ok\<lparr>exit_status := (\<lambda>st. if st = Pbt then 1 else 0),
            cap_pbt_results := ''Tests:       1 failed, 22 passed, 23 total'',
            cap_pbt_passed := ''22'', cap_pbt_total := ''23''\<rparr>"




text \<open>
  The moment before cleanup, with the two services and a pager that somebody opened on
  a file whose name contains \<^verbatim>\<open>prism mock\<close>.
\<close>

definition state_before_cleanup :: state where
  "state_before_cleanup =
     \<lparr>procs = [(1, ''/sbin/init''),
               (4001, ''npx prism mock openapi/reservations.yaml --port 4010 --host 127.0.0.1''),
               (4002, ''node server.cjs''),
               (5150, ''less docs/prism mock setup.md'')],
      files = [(''.env.mock'', ''BASE_URL=http://127.0.0.1:4010'')],
      analysis_summary = None,
      trace = []\<rparr>"

text \<open>Reservations: two with the same identifier and different emails, and a third.\<close>

definition reservation_ana :: "int Reservation" where
  "reservation_ana =
     \<lparr>rid = ''r-1'', name = ''Ana'', email = ''ana@example.com'',
      price = \<lparr>amount = 100, currency = ''EUR''\<rparr>, createdAt = 1700000000000\<rparr>"

definition reservation_bob :: "int Reservation" where
  "reservation_bob =
     \<lparr>rid = ''r-1'', name = ''Bob'', email = ''bob@example.com'',
      price = \<lparr>amount = 150, currency = ''EUR''\<rparr>, createdAt = 1700000000500\<rparr>"

definition reservation_cy :: "int Reservation" where
  "reservation_cy =
     \<lparr>rid = ''r-2'', name = ''Cy'', email = ''cy@example.com'',
      price = \<lparr>amount = 80, currency = ''USD''\<rparr>, createdAt = 1700000001000\<rparr>"

definition service_with_ana :: "int ReservationService" where
  "service_with_ana =
     snd (createReservation (new_ReservationService EmailDuplicatePolicy) reservation_ana)"

text \<open>Three amounts of money, with integer amounts.\<close>

definition eur_100 :: "int Currency" where
  "eur_100 = \<lparr>amount = 100, currency = ''EUR''\<rparr>"

definition eur_50 :: "int Currency" where
  "eur_50 = \<lparr>amount = 50, currency = ''EUR''\<rparr>"

definition usd_50 :: "int Currency" where
  "usd_50 = \<lparr>amount = 50, currency = ''USD''\<rparr>"

text \<open>The variables of an analysis with a mutation score of exactly 80 and no issue.\<close>

definition metrics_at_threshold :: metrics where
  "metrics_at_threshold =
     \<lparr>KARATE_COUNT = ''6'', KARATE_PASSED = ''6'', KARATE_FAILED = ''0'',
      UI_WDIO_COUNT = ''5'', API_WDIO_COUNT = ''0'', MUTATION_SCORE = ''80'',
      MUTANTS_KILLED = ''40'', MUTANTS_SURVIVED = ''10'',
      PBT_PASSED = ''23'', PBT_TOTAL = ''23''\<rparr>"

section \<open>Properties of the domain code\<close>

lemma map_set_length:
  "length (map_set k v m) = (if map_has k m then length m else Suc (length m))"
  by (induction m) (auto simp: map_has_def)

lemma map_set_get: "map_get k (map_set k v m) = Some v"
  by (induction m) (auto simp: map_get_def)

text \<open>
  C10. \<open>CurrencyUtils.add(a, b)\<close> throws exactly when the two currency codes differ,
  and then with the message \<open>Cannot add different currencies\<close>; when the codes are
  equal it returns the sum of the amounts under the code of \<open>a\<close>, and the two orders of
  the operands give the same result. The addition of amounts is that of the number type,
  assumed commutative (as the addition of JavaScript numbers is).
\<close>

theorem CurrencyUtils_add_commutes:
  fixes a b :: "'n::plus Currency"
  assumes comm: "\<And>x y :: 'n. x + y = y + x"
  shows "((\<exists>err. CurrencyUtils_add a b = Inl err) \<longleftrightarrow> currency a \<noteq> currency b)
       \<and> (currency a \<noteq> currency b \<longrightarrow>
            CurrencyUtils_add a b = Inl (Error ''Cannot add different currencies''))
       \<and> (currency a = currency b \<longrightarrow>
            CurrencyUtils_add a b = Inr \<lparr>amount = amount a + amount b, currency = currency a\<rparr>
          \<and> CurrencyUtils_add a b = CurrencyUtils_add b a)"
  by (simp add: CurrencyUtils_add_def comm)

text \<open>
  C10, at concrete amounts: 100 EUR and 50 EUR add to 150 EUR in either order, and
  100 EUR and 50 USD are refused.
\<close>

theorem CurrencyUtils_add_commutes_witness:
  "currency eur_100 = currency eur_50
   \<and> CurrencyUtils_add eur_100 eur_50 = Inr \<lparr>amount = 150, currency = ''EUR''\<rparr>
   \<and> CurrencyUtils_add eur_100 eur_50 = CurrencyUtils_add eur_50 eur_100
   \<and> currency eur_100 \<noteq> currency usd_50
   \<and> CurrencyUtils_add eur_100 usd_50 = Inl (Error ''Cannot add different currencies'')"
proof -
  have comm: "x + y = y + x" for x y :: int
    by simp
  have same: "currency eur_100 = currency eur_50"
    and differ: "currency eur_100 \<noteq> currency usd_50"
    and total: "amount eur_100 + amount eur_50 = 150" "currency eur_100 = ''EUR''"
    by (simp_all add: eur_100_def eur_50_def usd_50_def)
  from CurrencyUtils_add_commutes [of eur_100 eur_50, OF comm]
       CurrencyUtils_add_commutes [of eur_100 usd_50, OF comm] same differ total
  show ?thesis
    by auto
qed

text \<open>
  C9 does not hold as stated: a reservation whose identifier is already a key of the map
  and whose email is new is accepted, and it replaces the stored entry, so the list of
  all reservations keeps its length.
\<close>

theorem createReservation_grows_counterexample:
  "fst (createReservation service_with_ana reservation_bob) = Inr reservation_bob
   \<and> length (getAllReservations (snd (createReservation service_with_ana reservation_bob)))
       = length (getAllReservations service_with_ana)
   \<and> length (getAllReservations (snd (createReservation service_with_ana reservation_bob)))
       \<noteq> length (getAllReservations service_with_ana) + 1"
  by (simp add: service_with_ana_def createReservation_def new_ReservationService_def
      EmailDuplicatePolicy_def reservation_ana_def reservation_bob_def getAllReservations_def
      map_values_def)

text \<open>
  C9, amended. With \<open>EmailDuplicatePolicy\<close>, \<open>createReservation(r)\<close> throws exactly
  when a stored reservation has the email of \<open>r\<close>, with the message
  \<open>Duplicate reservation detected\<close> and the service unchanged. Otherwise it returns
  \<open>r\<close> and stores it under its identifier: the list of all reservations grows by one
  when the identifier was not a key, and keeps its length when it was.
\<close>

theorem createReservation_email_policy:
  assumes "duplicatePolicy svc = EmailDuplicatePolicy"
  shows "((\<exists>err. fst (createReservation svc r) = Inl err)
            \<longleftrightarrow> (\<exists>x \<in> set (getAllReservations svc). email x = email r))
       \<and> ((\<exists>x \<in> set (getAllReservations svc). email x = email r) \<longrightarrow>
            createReservation svc r = (Inl (Error ''Duplicate reservation detected''), svc))
       \<and> (\<not> (\<exists>x \<in> set (getAllReservations svc). email x = email r) \<longrightarrow>
            fst (createReservation svc r) = Inr r
          \<and> getReservation (snd (createReservation svc r)) (rid r) = Some r
          \<and> duplicatePolicy (snd (createReservation svc r)) = duplicatePolicy svc
          \<and> length (getAllReservations (snd (createReservation svc r)))
              = (if map_has (rid r) (reservations svc)
                 then length (getAllReservations svc)
                 else length (getAllReservations svc) + 1))"
  using assms
  by (simp add: createReservation_def EmailDuplicatePolicy_def getAllReservations_def
      getReservation_def map_values_def list_ex_iff map_set_length map_set_get)

text \<open>
  C9, amended, at a service that holds one reservation: a second one with the same email
  is refused and the service stays as it was; one with a new email and a new identifier
  makes two; one with a new email and the stored identifier leaves one.
\<close>

theorem createReservation_email_policy_witness:
  "duplicatePolicy service_with_ana = EmailDuplicatePolicy
   \<and> createReservation service_with_ana (reservation_cy\<lparr>email := ''ana@example.com''\<rparr>)
       = (Inl (Error ''Duplicate reservation detected''), service_with_ana)
   \<and> fst (createReservation service_with_ana reservation_cy) = Inr reservation_cy
   \<and> length (getAllReservations (snd (createReservation service_with_ana reservation_cy))) = 2
   \<and> fst (createReservation service_with_ana reservation_bob) = Inr reservation_bob
   \<and> length (getAllReservations (snd (createReservation service_with_ana reservation_bob))) = 1"
proof -
  have pol: "duplicatePolicy service_with_ana = EmailDuplicatePolicy"
    by (simp add: service_with_ana_def createReservation_def new_ReservationService_def
        EmailDuplicatePolicy_def map_values_def)
  have stored: "reservations service_with_ana = [(''r-1'', reservation_ana)]"
    by (simp add: service_with_ana_def createReservation_def new_ReservationService_def
        EmailDuplicatePolicy_def map_values_def reservation_ana_def)
  have facts:
    "(\<exists>x \<in> set (getAllReservations service_with_ana).
        email x = email (reservation_cy\<lparr>email := ''ana@example.com''\<rparr>))"
    "\<not> (\<exists>x \<in> set (getAllReservations service_with_ana). email x = email reservation_cy)"
    "\<not> (\<exists>x \<in> set (getAllReservations service_with_ana). email x = email reservation_bob)"
    "\<not> map_has (rid reservation_cy) (reservations service_with_ana)"
    "map_has (rid reservation_bob) (reservations service_with_ana)"
    "length (getAllReservations service_with_ana) = 1"
    by (simp_all add: stored getAllReservations_def map_values_def map_has_def
        reservation_ana_def reservation_bob_def reservation_cy_def)
  from createReservation_email_policy [OF pol, of "reservation_cy\<lparr>email := ''ana@example.com''\<rparr>"]
       createReservation_email_policy [OF pol, of reservation_cy]
       createReservation_email_policy [OF pol, of reservation_bob]
       pol facts
  show ?thesis
    by simp
qed

section \<open>Properties of the playbook script\<close>

subsection \<open>The primitive operations, field by field\<close>

lemma emit_fields [simp]:
  "procs (emit a s) = procs s"
  "files (emit a s) = files s"
  "analysis_summary (emit a s) = analysis_summary s"
  "trace (emit a s) = trace s @ [a]"
  by (simp_all add: emit_def)

lemma say_fields [simp]:
  "procs (say c m s) = procs s"
  "files (say c m s) = files s"
  "analysis_summary (say c m s) = analysis_summary s"
  "trace (say c m s) = trace s @ [Say c m]"
  by (simp_all add: say_def)

lemma pkill_fields [simp]:
  "procs (pkill pat s) = filter (\<lambda>p. \<not> search pat (snd p)) (procs s)"
  "files (pkill pat s) = files s"
  "analysis_summary (pkill pat s) = analysis_summary s"
  "trace (pkill pat s) = trace s @ [Pkill pat (map fst (filter (\<lambda>p. search pat (snd p)) (procs s)))]"
  by (simp_all add: pkill_def pkill_f_def)

lemma spawn_fields [simp]:
  "procs (spawn pid cmd s) = procs s @ [(pid, cmd)]"
  "files (spawn pid cmd s) = files s"
  "analysis_summary (spawn pid cmd s) = analysis_summary s"
  "trace (spawn pid cmd s) = trace s @ [Spawn pid cmd]"
  by (simp_all add: spawn_def)

lemma write_file_fields [simp]:
  "procs (write_file path c s) = procs s"
  "files (write_file path c s) = map_set path c (files s)"
  "analysis_summary (write_file path c s) = analysis_summary s"
  "trace (write_file path c s) = trace s @ [Write path]"
  by (simp_all add: write_file_def)

lemma rm_f_fields [simp]:
  "procs (rm_f path s) = procs s"
  "files (rm_f path s) = filter (\<lambda>e. fst e \<noteq> path) (files s)"
  "analysis_summary (rm_f path s) = analysis_summary s"
  "trace (rm_f path s) = trace s @ [Rm path]"
  by (simp_all add: rm_f_def map_delete_def)

lemma say_line_fields [simp]:
  "procs (say_line s l) = procs s"
  "files (say_line s l) = files s"
  "analysis_summary (say_line s l) = analysis_summary s"
  "trace (say_line s l) = trace s @ [Say (fst l) (snd l)]"
  by (simp_all add: say_line_def)

lemma foldl_say_line_fields [simp]:
  "procs (foldl say_line s ls) = procs s"
  "files (foldl say_line s ls) = files s"
  "analysis_summary (foldl say_line s ls) = analysis_summary s"
  "trace (foldl say_line s ls) = trace s @ map (\<lambda>l. Say (fst l) (snd l)) ls"
  by (induction ls arbitrary: s) simp_all

subsection \<open>Reading a trace\<close>

lemma stages_run_append [simp]: "stages_run (xs @ ys) = stages_run xs @ stages_run ys"
  by (simp add: stages_run_def List.map_filter_def)

lemma stages_run_simps [simp]:
  "stages_run [] = []"
  "stages_run (Run st # tr) = st # stages_run tr"
  "stages_run (Say c m # tr) = stages_run tr"
  "stages_run (Pkill pat ks # tr) = stages_run tr"
  "stages_run (Mkdir # tr) = stages_run tr"
  "stages_run (Spawn pid cmd # tr) = stages_run tr"
  "stages_run (Sleep n # tr) = stages_run tr"
  "stages_run (Curl u # tr) = stages_run tr"
  "stages_run (Cat f # tr) = stages_run tr"
  "stages_run (Write f # tr) = stages_run tr"
  "stages_run (Rm f # tr) = stages_run tr"
  by (simp_all add: stages_run_def List.map_filter_def)

lemma stages_run_says [simp]: "stages_run (map (\<lambda>l. Say (f l) (g l)) ls) = []"
  by (induction ls) simp_all

lemma removals_append [simp]: "removals (xs @ ys) = removals xs + removals ys"
  by (simp add: removals_def)

lemma removals_simps [simp]:
  "removals [] = 0"
  "removals (Rm f # tr) = (if f = ''.env.mock'' then 1 else 0) + removals tr"
  "removals (Run st # tr) = removals tr"
  "removals (Say c m # tr) = removals tr"
  "removals (Pkill pat ks # tr) = removals tr"
  "removals (Mkdir # tr) = removals tr"
  "removals (Spawn pid cmd # tr) = removals tr"
  "removals (Sleep n # tr) = removals tr"
  "removals (Curl u # tr) = removals tr"
  "removals (Cat f # tr) = removals tr"
  "removals (Write f # tr) = removals tr"
  by (simp_all add: removals_def)

lemma removals_says [simp]: "removals (map (\<lambda>l. Say (f l) (g l)) ls) = 0"
  by (induction ls) simp_all

lemma times_signalled_append [simp]:
  "times_signalled p (xs @ ys) = times_signalled p xs + times_signalled p ys"
  by (simp add: times_signalled_def)

lemma times_signalled_simps [simp]:
  "times_signalled p [] = 0"
  "times_signalled p (Pkill pat ks # tr) = (if p \<in> set ks then 1 else 0) + times_signalled p tr"
  "times_signalled p (Rm f # tr) = times_signalled p tr"
  "times_signalled p (Run st # tr) = times_signalled p tr"
  "times_signalled p (Say c m # tr) = times_signalled p tr"
  "times_signalled p (Mkdir # tr) = times_signalled p tr"
  "times_signalled p (Spawn pid cmd # tr) = times_signalled p tr"
  "times_signalled p (Sleep n # tr) = times_signalled p tr"
  "times_signalled p (Curl u # tr) = times_signalled p tr"
  "times_signalled p (Cat f # tr) = times_signalled p tr"
  "times_signalled p (Write f # tr) = times_signalled p tr"
  by (simp_all add: times_signalled_def signals_def)

lemma times_signalled_says [simp]: "times_signalled p (map (\<lambda>l. Say (f l) (g l)) ls) = 0"
  by (induction ls) simp_all

lemma map_has_map_set [simp]: "map_has k (map_set k' v m) = (k = k' \<or> map_has k m)"
  by (induction m) (auto simp: map_has_def split: if_splits)

lemma map_has_filter [simp]:
  "map_has k (filter (\<lambda>e. fst e \<noteq> k') m) = (k \<noteq> k' \<and> map_has k m)"
  by (induction m) (auto simp: map_has_def)

lemma in_fst_filter:
  "p \<in> fst ` {q \<in> set ps. Q q} \<longleftrightarrow> (\<exists>c. (p, c) \<in> set ps \<and> Q (p, c))"
  by force

lemma fresh_pair: "p \<notin> fst ` set ps \<Longrightarrow> (p, c) \<notin> set ps"
  by force

subsection \<open>The steps, field by field\<close>

lemma prism_cmd [simp]:
  "search ''prism mock'' ''npx prism mock openapi/reservations.yaml --port 4010 --host 127.0.0.1''"
  "\<not> search ''node server.cjs'' ''npx prism mock openapi/reservations.yaml --port 4010 --host 127.0.0.1''"
  "\<not> search ''prism mock'' ''node server.cjs''"
  "search ''node server.cjs'' ''node server.cjs''"
  by simp_all

lemma step3_fields [simp]:
  "procs (step3 e s) = procs s"
  "files (step3 e s) = files s"
  "analysis_summary (step3 e s) = analysis_summary s"
  "stages_run (trace (step3 e s)) = stages_run (trace s) @ [Karate]"
  "removals (trace (step3 e s)) = removals (trace s)"
  "times_signalled p (trace (step3 e s)) = times_signalled p (trace s)"
  by (simp_all add: step3_def Let_def)

lemma step4_fields [simp]:
  "procs (step4 e s) = procs s"
  "map_has ''.env.mock'' (files (step4 e s)) = map_has ''.env.mock'' (files s)"
  "analysis_summary (step4 e s) = analysis_summary s"
  "stages_run (trace (step4 e s)) = stages_run (trace s) @ [WdioUi, WdioApi]"
  "removals (trace (step4 e s)) = removals (trace s)"
  "times_signalled p (trace (step4 e s)) = times_signalled p (trace s)"
  by (simp_all add: step4_def Let_def)


lemma step5_fields [simp]:
  "procs (step5 e s) = procs s"
  "files (step5 e s) = files s"
  "analysis_summary (step5 e s) = analysis_summary s"
  "stages_run (trace (step5 e s)) = stages_run (trace s) @ [Mutation]"
  "removals (trace (step5 e s)) = removals (trace s)"
  "times_signalled p (trace (step5 e s)) = times_signalled p (trace s)"
  by (simp_all add: step5_def Let_def split: option.split)

lemma step7_fields [simp]:
  "procs (step7 e s) = procs s"
  "map_has ''.env.mock'' (files (step7 e s)) = map_has ''.env.mock'' (files s)"
  "analysis_summary (step7 e s) = analysis_summary s"
  "stages_run (trace (step7 e s)) = stages_run (trace s)"
  "removals (trace (step7 e s)) = removals (trace s)"
  "times_signalled p (trace (step7 e s)) = times_signalled p (trace s)"
  by (simp_all add: step7_def Let_def)

lemma step8_fields [simp]:
  "procs (step8 s) =
     filter (\<lambda>p. \<not> search ''node server.cjs'' (snd p))
       (filter (\<lambda>p. \<not> search ''prism mock'' (snd p)) (procs s))"
  "map_has ''.env.mock'' (files (step8 s)) = False"
  "analysis_summary (step8 s) = analysis_summary s"
  "stages_run (trace (step8 s)) = stages_run (trace s)"
  "removals (trace (step8 s)) = removals (trace s) + 1"
  "times_signalled p (trace (step8 s)) =
     times_signalled p (trace s)
     + (if \<exists>c. (p, c) \<in> set (procs s) \<and> search ''prism mock'' c then 1 else 0)
     + (if \<exists>c. (p, c) \<in> set (procs s) \<and> \<not> search ''prism mock'' c
              \<and> search ''node server.cjs'' c then 1 else 0)"
  by (auto simp: step8_def Let_def in_fst_filter)

lemma step1_exit [simp]:
  "exit_of (step1 e s) = (if curl_mock e = 0 \<or> curl_mock e = 22 then None else Some 1)"
  by (simp add: step1_def Let_def)

lemma step1_fields [simp]:
  "procs (state_of (step1 e s)) =
     filter (\<lambda>p. \<not> search ''node server.cjs'' (snd p))
       (filter (\<lambda>p. \<not> search ''prism mock'' (snd p)) (procs s))
     @ [(PRISM_PID e, ''npx prism mock openapi/reservations.yaml --port 4010 --host 127.0.0.1''),
        (WEB_SERVER_PID e, ''node server.cjs'')]"
  "map_has ''.env.mock'' (files (state_of (step1 e s)))
     = (curl_mock e = 0 \<or> curl_mock e = 22 \<or> map_has ''.env.mock'' (files s))"
  "analysis_summary (state_of (step1 e s)) = analysis_summary s"
  "stages_run (trace (state_of (step1 e s))) = stages_run (trace s)"
  "removals (trace (state_of (step1 e s))) = removals (trace s)"
  "times_signalled p (trace (state_of (step1 e s))) =
     times_signalled p (trace s)
     + (if \<exists>c. (p, c) \<in> set (procs s) \<and> search ''prism mock'' c then 1 else 0)
     + (if \<exists>c. (p, c) \<in> set (procs s) \<and> \<not> search ''prism mock'' c
              \<and> search ''node server.cjs'' c then 1 else 0)"
  by (auto simp: step1_def Let_def in_fst_filter)

lemma step2_exit [simp]:
  "exit_of (step2 e s) = (if exit_status e Validate = 0 then None else Some 1)"
  by (simp add: step2_def Let_def)

lemma step2_fields [simp]:
  "procs (state_of (step2 e s)) = procs s"
  "files (state_of (step2 e s)) = files s"
  "analysis_summary (state_of (step2 e s)) = analysis_summary s"
  "stages_run (trace (state_of (step2 e s))) = stages_run (trace s) @ [Validate]"
  "removals (trace (state_of (step2 e s))) = removals (trace s)"
  "times_signalled p (trace (state_of (step2 e s))) = times_signalled p (trace s)"
  by (simp_all add: step2_def Let_def)

lemma step6_exit [simp]:
  "exit_of (step6 e s) = (if exit_status e Pbt = 0 then None else Some (exit_status e Pbt))"
  by (simp add: step6_def Let_def)

lemma step6_fields [simp]:
  "procs (state_of (step6 e s)) = procs s"
  "files (state_of (step6 e s)) = files s"
  "analysis_summary (state_of (step6 e s)) = analysis_summary s"
  "stages_run (trace (state_of (step6 e s))) = stages_run (trace s) @ [Pbt]"
  "removals (trace (state_of (step6 e s))) = removals (trace s)"
  "times_signalled p (trace (state_of (step6 e s))) = times_signalled p (trace s)"
  by (simp_all add: step6_def Let_def)

lemma initial_fields [simp]:
  "procs (initial e) = procs0 e"
  "map_has ''.env.mock'' (files (initial e)) = env_mock0 e"
  "analysis_summary (initial e) = None"
  "trace (initial e) = []"
  by (simp_all add: initial_def map_has_def)

lemma outcome_case:
  "(case x of Exited c s \<Rightarrow> f c s | Running s \<Rightarrow> g s)
     = (case exit_of x of Some c \<Rightarrow> f c (state_of x) | None \<Rightarrow> g (state_of x))"
  by (cases x) simp_all

subsection \<open>The five ways a run ends\<close>

lemma TOTAL_ISSUES_sum:
  "TOTAL_ISSUES m =
     (if test_gt (KARATE_FAILED m) 0 then 1 else 0)
   + (if test_eq (UI_WDIO_COUNT m) 0 then 1 else 0)
   + (if bc_lt (MUTATION_SCORE m) 80 then 1 else 0)
   + (if test_ne2 (PBT_PASSED m) (PBT_TOTAL m) then 1 else 0)"
  by (simp add: TOTAL_ISSUES_def overall_assessment_def check_karate_def check_ui_def
      check_api_def check_score_def check_survived_def check_pbt_def)

lemma pbt_failed_count_eq:
  "pbt_failed_count e
     = arith_sub (arith_other e) (default0 (cap_pbt_total e)) (default0 (cap_pbt_passed e))"
  by (simp add: pbt_failed_count_def extract_metrics_def Let_def)

lemma extract_metrics_fields [simp]:
  "KARATE_FAILED (extract_metrics e s) = default0 (cap_karate_failed e)"
  "KARATE_PASSED (extract_metrics e s) = default0 (cap_karate_passed e)"
  "UI_WDIO_COUNT (extract_metrics e s) = cap_ui e"
  "API_WDIO_COUNT (extract_metrics e s) = cap_api e"
  "MUTATION_SCORE (extract_metrics e s) = final_mutation_score (stryker_log e)"
  "PBT_PASSED (extract_metrics e s) = default0 (cap_pbt_passed e)"
  "PBT_TOTAL (extract_metrics e s) = default0 (cap_pbt_total e)"
  "PBT_FAILED (extract_metrics e s) = pbt_failed_count e"
  by (simp_all add: extract_metrics_def Let_def final_mutation_score_def pbt_failed_count_eq)

lemma issue_count_sum:
  "issue_count e =
     (if test_gt (default0 (cap_karate_failed e)) 0 then 1 else 0)
   + (if test_eq (cap_ui e) 0 then 1 else 0)
   + (if bc_lt (final_mutation_score (stryker_log e)) 80 then 1 else 0)
   + (if test_ne2 (default0 (cap_pbt_passed e)) (default0 (cap_pbt_total e)) then 1 else 0)"
  by (simp add: issue_count_def TOTAL_ISSUES_sum)

lemma TOTAL_ISSUES_extract [simp]: "TOTAL_ISSUES (extract_metrics e s) = issue_count e"
  by (simp add: issue_count_sum TOTAL_ISSUES_sum)

lemma case_option_id [simp]: "(case x of None \<Rightarrow> None | Some t \<Rightarrow> Some t) = x"
  by (cases x) simp_all

lemma make_summary_fields [simp]:
  "map_option sum_overall (make_summary d (extract_metrics e s))
     = (if pbt_failed_count e = None then None
        else Some (if issue_count e = 0 then EXCELLENT else ISSUES_FOUND (issue_count e)))"
  "map_option sum_score (make_summary d (extract_metrics e s))
     = (if pbt_failed_count e = None then None else Some (final_mutation_score (stryker_log e)))"
  "map_option sum_date (make_summary d (extract_metrics e s))
     = (if pbt_failed_count e = None then None else Some d)"
  "map_option (\<lambda>x. c) (make_summary d (extract_metrics e s))
     = (if pbt_failed_count e = None then None else Some c)"
  by (simp_all add: make_summary_def split: option.split)

lemma make_summary_cases:
  "pbt_failed_count e = None \<and> make_summary d (extract_metrics e s) = None
   \<or> (\<exists>n t. pbt_failed_count e = Some n \<and> make_summary d (extract_metrics e s) = Some t)"
  by (cases "pbt_failed_count e") (simp_all add: make_summary_def)

lemma final_analysis_exit [simp]:
  "exit_of (final_analysis e s) = (if pbt_failed_count e = None then Some 1 else None)"
  using make_summary_cases [of e "clock e" "say BLUE ''QA PLAYBOOK EXECUTION COMPLETED'' s"]
  by (elim disjE exE conjE) (simp_all add: final_analysis_def Let_def)

lemma final_analysis_fields [simp]:
  "procs (state_of (final_analysis e s)) = procs s"
  "map_has ''.env.mock'' (files (state_of (final_analysis e s))) = map_has ''.env.mock'' (files s)"
  "stages_run (trace (state_of (final_analysis e s))) = stages_run (trace s)"
  "removals (trace (state_of (final_analysis e s))) = removals (trace s)"
  "times_signalled p (trace (state_of (final_analysis e s))) = times_signalled p (trace s)"
  using make_summary_cases [of e "clock e" "say BLUE ''QA PLAYBOOK EXECUTION COMPLETED'' s"]
  by (elim disjE exE conjE; simp add: final_analysis_def Let_def)+

lemma final_analysis_summary:
  "analysis_summary (state_of (final_analysis e s))
     = (if pbt_failed_count e = None then analysis_summary s
        else make_summary (clock e)
               (extract_metrics e (say BLUE ''QA PLAYBOOK EXECUTION COMPLETED'' s)))"
  using make_summary_cases [of e "clock e" "say BLUE ''QA PLAYBOOK EXECUTION COMPLETED'' s"]
  by (elim disjE exE conjE) (simp_all add: final_analysis_def Let_def)

lemma final_analysis_last:
  "pbt_failed_count e \<noteq> None \<Longrightarrow>
   last (trace (state_of (final_analysis e s)))
     = (if issue_count e = 0 then Say GREEN ''All steps completed successfully!''
        else Say YELLOW ''Playbook completed with $TOTAL_ISSUES warning(s)'')"
  using make_summary_cases [of e "clock e" "say BLUE ''QA PLAYBOOK EXECUTION COMPLETED'' s"]
  by (elim disjE exE conjE) (simp_all add: final_analysis_def Let_def)

lemma final_analysis_empty:
  "pbt_failed_count e = None \<Longrightarrow>
   analysis_summary (state_of (final_analysis e s)) = analysis_summary s
   \<and> last (trace (state_of (final_analysis e s))) = Write ''reports/analysis-summary.txt''
   \<and> map_get ''reports/analysis-summary.txt'' (files (state_of (final_analysis e s))) = Some []"
  using make_summary_cases [of e "clock e" "say BLUE ''QA PLAYBOOK EXECUTION COMPLETED'' s"]
  by (elim disjE exE conjE) (simp_all add: final_analysis_def Let_def map_set_get)

lemma run_cases:
  "run_qa_playbook e =
     (if \<not> (curl_mock e = 0 \<or> curl_mock e = 22) then (1, state_of (step1 e (initial e)))
      else if exit_status e Validate \<noteq> 0
      then (1, state_of (step2 e (state_of (step1 e (initial e)))))
      else if exit_status e Pbt \<noteq> 0
      then (exit_status e Pbt,
            state_of (step6 e (step5 e (step4 e (step3 e
              (state_of (step2 e (state_of (step1 e (initial e))))))))))
      else (if pbt_failed_count e = None then 1 else 0,
            state_of (final_analysis e (step8 (step7 e (state_of (step6 e (step5 e (step4 e
              (step3 e (state_of (step2 e (state_of (step1 e (initial e)))))))))))))))"
  by (simp add: run_qa_playbook_def outcome_case)

lemma run_completed:
  assumes ok: "curl_mock e = 0 \<or> curl_mock e = 22" "exit_status e Validate = 0"
    "exit_status e Pbt = 0"
  shows "fst (run_qa_playbook e) = (if pbt_failed_count e = None then 1 else 0)"
    and "removals (trace (snd (run_qa_playbook e))) = 1"
    and "stages_run (trace (snd (run_qa_playbook e)))
           = [Validate, Karate, WdioUi, WdioApi, Mutation, Pbt]"
    and "\<not> file_exists ''.env.mock'' (snd (run_qa_playbook e))"
    and "map_option sum_overall (analysis_summary (snd (run_qa_playbook e)))
           = (if pbt_failed_count e = None then None
              else Some (if issue_count e = 0 then EXCELLENT else ISSUES_FOUND (issue_count e)))"
    and "map_option sum_score (analysis_summary (snd (run_qa_playbook e)))
           = (if pbt_failed_count e = None then None
              else Some (final_mutation_score (stryker_log e)))"
    and "map_option sum_date (analysis_summary (snd (run_qa_playbook e)))
           = (if pbt_failed_count e = None then None else Some (clock e))"
  using ok by (simp_all add: run_cases file_exists_def final_analysis_summary del: not_None_eq)

lemma run_completed_last:
  assumes ok: "curl_mock e = 0 \<or> curl_mock e = 22" "exit_status e Validate = 0"
    "exit_status e Pbt = 0" and num: "pbt_failed_count e \<noteq> None"
  shows "last (trace (snd (run_qa_playbook e)))
           = (if issue_count e = 0 then Say GREEN ''All steps completed successfully!''
              else Say YELLOW ''Playbook completed with $TOTAL_ISSUES warning(s)'')"
  using ok num by (simp add: run_cases final_analysis_last)

lemma run_completed_empty_summary:
  assumes ok: "curl_mock e = 0 \<or> curl_mock e = 22" "exit_status e Validate = 0"
    "exit_status e Pbt = 0" and num: "pbt_failed_count e = None"
  shows "analysis_summary (snd (run_qa_playbook e)) = None"
    and "last (trace (snd (run_qa_playbook e))) = Write ''reports/analysis-summary.txt''"
    and "map_get ''reports/analysis-summary.txt'' (files (snd (run_qa_playbook e))) = Some []"
  using ok num by (simp_all add: run_cases final_analysis_empty)

lemma run_completed_signals:
  assumes ok: "curl_mock e = 0 \<or> curl_mock e = 22" "exit_status e Validate = 0"
    "exit_status e Pbt = 0"
    and fresh: "PRISM_PID e \<notin> fst ` set (procs0 e)" "WEB_SERVER_PID e \<notin> fst ` set (procs0 e)"
      "PRISM_PID e \<noteq> WEB_SERVER_PID e"
  shows "times_signalled (PRISM_PID e) (trace (snd (run_qa_playbook e))) = 1"
    and "times_signalled (WEB_SERVER_PID e) (trace (snd (run_qa_playbook e))) = 1"
    and "\<not> running (PRISM_PID e) (snd (run_qa_playbook e))"
    and "\<not> running (WEB_SERVER_PID e) (snd (run_qa_playbook e))"
  using ok fresh(3) fresh_pair [OF fresh(1)] fresh_pair [OF fresh(2)]
  by (auto simp: run_cases running_def)

lemma run_aborted_early:
  assumes bad: "\<not> (curl_mock e = 0 \<or> curl_mock e = 22) \<or> exit_status e Validate \<noteq> 0"
  shows "fst (run_qa_playbook e) = 1"
    and "removals (trace (snd (run_qa_playbook e))) = 0"
    and "analysis_summary (snd (run_qa_playbook e)) = None"
    and "running (PRISM_PID e) (snd (run_qa_playbook e))"
    and "running (WEB_SERVER_PID e) (snd (run_qa_playbook e))"
    and "stages_run (trace (snd (run_qa_playbook e)))
           = (if curl_mock e = 0 \<or> curl_mock e = 22 then [Validate] else [])"
    and "file_exists ''.env.mock'' (snd (run_qa_playbook e))
           = (curl_mock e = 0 \<or> curl_mock e = 22 \<or> env_mock0 e)"
  using bad by (auto simp: run_cases file_exists_def running_def)

lemma run_aborted_early_signals:
  assumes bad: "\<not> (curl_mock e = 0 \<or> curl_mock e = 22) \<or> exit_status e Validate \<noteq> 0"
    and fresh: "PRISM_PID e \<notin> fst ` set (procs0 e)" "WEB_SERVER_PID e \<notin> fst ` set (procs0 e)"
  shows "times_signalled (PRISM_PID e) (trace (snd (run_qa_playbook e))) = 0"
    and "times_signalled (WEB_SERVER_PID e) (trace (snd (run_qa_playbook e))) = 0"
  using bad fresh_pair [OF fresh(1)] fresh_pair [OF fresh(2)]
  by (auto simp: run_cases)

lemma run_pbt_aborted:
  assumes ok: "curl_mock e = 0 \<or> curl_mock e = 22" "exit_status e Validate = 0"
    and pbt: "exit_status e Pbt \<noteq> 0"
  shows "fst (run_qa_playbook e) = exit_status e Pbt"
    and "removals (trace (snd (run_qa_playbook e))) = 0"
    and "analysis_summary (snd (run_qa_playbook e)) = None"
    and "running (PRISM_PID e) (snd (run_qa_playbook e))"
    and "running (WEB_SERVER_PID e) (snd (run_qa_playbook e))"
    and "stages_run (trace (snd (run_qa_playbook e)))
           = [Validate, Karate, WdioUi, WdioApi, Mutation, Pbt]"
    and "file_exists ''.env.mock'' (snd (run_qa_playbook e))"
  using ok pbt by (auto simp: run_cases file_exists_def running_def)

subsection \<open>The concrete runs\<close>

lemma env_ok_fields [simp]:
  "procs0 env_ok = [(1, ''/sbin/init''), (977, ''tail -f notes on prism mock.txt'')]"
  "env_mock0 env_ok = False"
  "PRISM_PID env_ok = 4001"
  "WEB_SERVER_PID env_ok = 4002"
  "curl_mock env_ok = 22"
  "curl_web env_ok = 0"
  "exit_status env_ok = (\<lambda>st. 0)"
  "cap_ui env_ok = ''5''"
  "cap_karate_failed env_ok = ''0''"
  "cap_pbt_passed env_ok = ''23''"
  "cap_pbt_total env_ok = ''23''"
  "clock env_ok = ''2025-01-15 10:00:00''"
  "final_mutation_score (stryker_log env_ok) = ''95.16''"
  by (simp_all add: env_ok_def final_mutation_score_def stryker_score_def or_echo0_def
      default0_def grep_def text_lines_def binary_def first_line_def sed_score_def
      is_score_char_def is_digit_def)

lemma bc_9516: "bc_value ''95.16'' = Some (2379 / 25)"
  by (simp add: bc_value_def is_digit_def dec_def digit_val_def)

lemma test_num_simps [simp]:
  "test_num ''0'' = Some 0" "test_num ''1'' = Some 1" "test_num ''5'' = Some 5"
  "test_num ''22'' = Some 22" "test_num ''23'' = Some 23"
  by (simp_all add: test_num_def is_space_def is_blank_def is_digit_def dec_def digit_val_def)

lemma issue_count_env_ok: "issue_count env_ok = 0"
  by (simp add: issue_count_sum default0_def test_gt_def test_eq_def test_ne2_def bc_lt_def
      bc_9516)

lemma issue_count_env_karate_failed: "issue_count env_karate_failed = 1"
  using env_ok_fields
  by (simp add: env_karate_failed_def issue_count_sum default0_def test_gt_def test_eq_def
      test_ne2_def bc_lt_def bc_9516)

lemma arith_simps [simp]:
  "arith other ''23'' = Some 23"
  "arith other ''08'' = None"
  by (simp_all add: arith_def numeral_value_def wrap64_def is_digit_def dec_def digit_val_def)

lemma pbt_failed_count_env_ok: "pbt_failed_count env_ok = Some 0"
  by (simp add: pbt_failed_count_eq arith_sub_def default0_def wrap64_def)

lemma pbt_failed_count_env_karate_failed: "pbt_failed_count env_karate_failed = Some 0"
  using env_ok_fields
  by (simp add: env_karate_failed_def pbt_failed_count_eq arith_sub_def default0_def wrap64_def)

lemma pbt_failed_count_env_counts_08: "pbt_failed_count env_counts_08 = None"
  by (simp add: env_counts_08_def pbt_failed_count_eq arith_sub_def default0_def)

lemma env_variants [simp]:
  "curl_mock env_mock_down = 7"
  "PRISM_PID env_mock_down = 4001"
  "WEB_SERVER_PID env_mock_down = 4002"
  "procs0 env_mock_down = procs0 env_ok"
  "env_mock0 env_mock_down = False"
  "curl_mock env_bundle_invalid = 22"
  "exit_status env_bundle_invalid Validate = 2"
  "PRISM_PID env_bundle_invalid = 4001"
  "WEB_SERVER_PID env_bundle_invalid = 4002"
  "procs0 env_bundle_invalid = procs0 env_ok"
  "curl_mock env_karate_failed = 22"
  "exit_status env_karate_failed Validate = 0"
  "exit_status env_karate_failed Karate = 1"
  "exit_status env_karate_failed Pbt = 0"
  "curl_mock env_pbt_failed = 22"
  "exit_status env_pbt_failed Validate = 0"
  "exit_status env_pbt_failed Pbt = 1"
  "PRISM_PID env_pbt_failed = 4001"
  "WEB_SERVER_PID env_pbt_failed = 4002"
  "curl_mock env_counts_08 = 22"
  "exit_status env_counts_08 Validate = 0"
  "exit_status env_counts_08 Pbt = 0"
  "PRISM_PID env_counts_08 = 4001"
  "WEB_SERVER_PID env_counts_08 = 4002"
  "procs0 env_counts_08 = procs0 env_ok"
  by (simp_all add: env_mock_down_def env_bundle_invalid_def env_karate_failed_def
      env_pbt_failed_def env_counts_08_def)

text \<open>
  The run whose property-test counts are written \<open>08\<close>: every stage has run and the
  cleanup is done, but the here-document of the summary cannot be expanded; the script
  leaves with status 1, the summary file is empty and nothing is printed after it.
\<close>

lemma run_env_counts_08:
  "fst (run_qa_playbook env_counts_08) = 1"
  "analysis_summary (snd (run_qa_playbook env_counts_08)) = None"
  "map_get ''reports/analysis-summary.txt'' (files (snd (run_qa_playbook env_counts_08))) = Some []"
  "last (trace (snd (run_qa_playbook env_counts_08))) = Write ''reports/analysis-summary.txt''"
proof -
  have ok: "curl_mock env_counts_08 = 0 \<or> curl_mock env_counts_08 = 22"
    "exit_status env_counts_08 Validate = 0" "exit_status env_counts_08 Pbt = 0"
    by simp_all
  show "fst (run_qa_playbook env_counts_08) = 1"
    using run_completed(1) [OF ok] pbt_failed_count_env_counts_08 by simp
  show "analysis_summary (snd (run_qa_playbook env_counts_08)) = None"
    by (rule run_completed_empty_summary(1) [OF ok pbt_failed_count_env_counts_08])
  show "map_get ''reports/analysis-summary.txt'' (files (snd (run_qa_playbook env_counts_08)))
          = Some []"
    by (rule run_completed_empty_summary(3) [OF ok pbt_failed_count_env_counts_08])
  show "last (trace (snd (run_qa_playbook env_counts_08))) = Write ''reports/analysis-summary.txt''"
    by (rule run_completed_empty_summary(2) [OF ok pbt_failed_count_env_counts_08])
qed

subsection \<open>Cleanup, exit status and the order of stages\<close>

text \<open>
  C1 does not hold as stated. When the mock server does not answer the health check, the
  script leaves with status 1 at line 78: \<^verbatim>\<open>.env.mock\<close> is never removed, no process
  is signalled after the services were started, and the web server started on line 67
  is still there.
\<close>

theorem cleanup_skipped_counterexample:
  "fst (run_qa_playbook env_mock_down) = 1
   \<and> removals (trace (snd (run_qa_playbook env_mock_down))) = 0
   \<and> times_signalled 4002 (trace (snd (run_qa_playbook env_mock_down))) = 0
   \<and> running 4002 (snd (run_qa_playbook env_mock_down))"
proof -
  have bad: "\<not> (curl_mock env_mock_down = 0 \<or> curl_mock env_mock_down = 22)
             \<or> exit_status env_mock_down Validate \<noteq> 0"
    by simp
  have fresh: "PRISM_PID env_mock_down \<notin> fst ` set (procs0 env_mock_down)"
    "WEB_SERVER_PID env_mock_down \<notin> fst ` set (procs0 env_mock_down)"
    by simp_all
  from run_aborted_early(1,2,5) [OF bad] run_aborted_early_signals(2) [OF bad fresh]
  show ?thesis
    by simp
qed

text \<open>
  C1, amended. The identifiers of the two background jobs are fresh and distinct. On a
  run where the health check of the mock server, the bundle validation and the
  property-test command all succeed, the cleanup runs once before the script leaves:
  each of the two services was signalled exactly once and is gone, and
  \<^verbatim>\<open>.env.mock\<close> was removed once and is absent; the script then leaves with
  status 0, provided the shell can evaluate \<^verbatim>\<open>$((PBT_TOTAL - PBT_PASSED))\<close> for the
  summary. On a run where the health check or the bundle validation fails, the script
  leaves with status 1 and the cleanup does not run: nothing is removed, the services
  are not signalled and remain.
\<close>

theorem cleanup_only_on_completed_run:
  assumes fresh: "PRISM_PID e \<notin> fst ` set (procs0 e)"
    "WEB_SERVER_PID e \<notin> fst ` set (procs0 e)" "PRISM_PID e \<noteq> WEB_SERVER_PID e"
  shows "((curl_mock e = 0 \<or> curl_mock e = 22) \<and> exit_status e Validate = 0
            \<and> exit_status e Pbt = 0 \<longrightarrow>
            removals (trace (snd (run_qa_playbook e))) = 1
          \<and> times_signalled (PRISM_PID e) (trace (snd (run_qa_playbook e))) = 1
          \<and> times_signalled (WEB_SERVER_PID e) (trace (snd (run_qa_playbook e))) = 1
          \<and> \<not> running (PRISM_PID e) (snd (run_qa_playbook e))
          \<and> \<not> running (WEB_SERVER_PID e) (snd (run_qa_playbook e))
          \<and> \<not> file_exists ''.env.mock'' (snd (run_qa_playbook e))
          \<and> (pbt_failed_count e \<noteq> None \<longrightarrow> fst (run_qa_playbook e) = 0))
       \<and> (\<not> (curl_mock e = 0 \<or> curl_mock e = 22) \<or> exit_status e Validate \<noteq> 0 \<longrightarrow>
            fst (run_qa_playbook e) = 1
          \<and> removals (trace (snd (run_qa_playbook e))) = 0
          \<and> times_signalled (PRISM_PID e) (trace (snd (run_qa_playbook e))) = 0
          \<and> times_signalled (WEB_SERVER_PID e) (trace (snd (run_qa_playbook e))) = 0
          \<and> running (PRISM_PID e) (snd (run_qa_playbook e))
          \<and> running (WEB_SERVER_PID e) (snd (run_qa_playbook e)))"
proof (intro conjI impI)
  assume ok: "(curl_mock e = 0 \<or> curl_mock e = 22) \<and> exit_status e Validate = 0
                \<and> exit_status e Pbt = 0"
  then have h: "curl_mock e = 0 \<or> curl_mock e = 22" "exit_status e Validate = 0"
    "exit_status e Pbt = 0"
    by simp_all
  show "removals (trace (snd (run_qa_playbook e))) = 1"
    by (rule run_completed(2) [OF h])
  show "\<not> file_exists ''.env.mock'' (snd (run_qa_playbook e))"
    by (rule run_completed(4) [OF h])
  show "times_signalled (PRISM_PID e) (trace (snd (run_qa_playbook e))) = 1"
    by (rule run_completed_signals(1) [OF h fresh])
  show "times_signalled (WEB_SERVER_PID e) (trace (snd (run_qa_playbook e))) = 1"
    by (rule run_completed_signals(2) [OF h fresh])
  show "\<not> running (PRISM_PID e) (snd (run_qa_playbook e))"
    by (rule run_completed_signals(3) [OF h fresh])
  show "\<not> running (WEB_SERVER_PID e) (snd (run_qa_playbook e))"
    by (rule run_completed_signals(4) [OF h fresh])
  show "fst (run_qa_playbook e) = 0" if "pbt_failed_count e \<noteq> None"
    using run_completed(1) [OF h] that by simp
next
  assume bad: "\<not> (curl_mock e = 0 \<or> curl_mock e = 22) \<or> exit_status e Validate \<noteq> 0"
  show "fst (run_qa_playbook e) = 1"
    by (rule run_aborted_early(1) [OF bad])
  show "removals (trace (snd (run_qa_playbook e))) = 0"
    by (rule run_aborted_early(2) [OF bad])
  show "running (PRISM_PID e) (snd (run_qa_playbook e))"
    by (rule run_aborted_early(4) [OF bad])
  show "running (WEB_SERVER_PID e) (snd (run_qa_playbook e))"
    by (rule run_aborted_early(5) [OF bad])
  show "times_signalled (PRISM_PID e) (trace (snd (run_qa_playbook e))) = 0"
    by (rule run_aborted_early_signals(1) [OF bad fresh(1,2)])
  show "times_signalled (WEB_SERVER_PID e) (trace (snd (run_qa_playbook e))) = 0"
    by (rule run_aborted_early_signals(2) [OF bad fresh(1,2)])
qed

text \<open>
  C1, amended, at the run where everything succeeds, at the run whose property-test
  counts are written \<open>08\<close> (the cleanup has run all the same), and at the run with
  an invalid bundle.
\<close>

theorem cleanup_only_on_completed_run_witness:
  "PRISM_PID env_ok \<notin> fst ` set (procs0 env_ok)
   \<and> WEB_SERVER_PID env_ok \<notin> fst ` set (procs0 env_ok)
   \<and> PRISM_PID env_ok \<noteq> WEB_SERVER_PID env_ok
   \<and> curl_mock env_ok = 22 \<and> exit_status env_ok Validate = 0 \<and> exit_status env_ok Pbt = 0
   \<and> pbt_failed_count env_ok = Some 0
   \<and> fst (run_qa_playbook env_ok) = 0
   \<and> removals (trace (snd (run_qa_playbook env_ok))) = 1
   \<and> times_signalled 4001 (trace (snd (run_qa_playbook env_ok))) = 1
   \<and> times_signalled 4002 (trace (snd (run_qa_playbook env_ok))) = 1
   \<and> \<not> running 4001 (snd (run_qa_playbook env_ok))
   \<and> \<not> running 4002 (snd (run_qa_playbook env_ok))
   \<and> \<not> file_exists ''.env.mock'' (snd (run_qa_playbook env_ok))
   \<and> removals (trace (snd (run_qa_playbook env_counts_08))) = 1
   \<and> times_signalled 4001 (trace (snd (run_qa_playbook env_counts_08))) = 1
   \<and> \<not> running 4002 (snd (run_qa_playbook env_counts_08))
   \<and> exit_status env_bundle_invalid Validate \<noteq> 0
   \<and> fst (run_qa_playbook env_bundle_invalid) = 1
   \<and> removals (trace (snd (run_qa_playbook env_bundle_invalid))) = 0
   \<and> times_signalled 4001 (trace (snd (run_qa_playbook env_bundle_invalid))) = 0
   \<and> running 4001 (snd (run_qa_playbook env_bundle_invalid))
   \<and> running 4002 (snd (run_qa_playbook env_bundle_invalid))"
proof -
  have fresh: "PRISM_PID env_ok \<notin> fst ` set (procs0 env_ok)"
    "WEB_SERVER_PID env_ok \<notin> fst ` set (procs0 env_ok)" "PRISM_PID env_ok \<noteq> WEB_SERVER_PID env_ok"
    by simp_all
  have fresh': "PRISM_PID env_bundle_invalid \<notin> fst ` set (procs0 env_bundle_invalid)"
    "WEB_SERVER_PID env_bundle_invalid \<notin> fst ` set (procs0 env_bundle_invalid)"
    "PRISM_PID env_bundle_invalid \<noteq> WEB_SERVER_PID env_bundle_invalid"
    by simp_all
  have fresh'': "PRISM_PID env_counts_08 \<notin> fst ` set (procs0 env_counts_08)"
    "WEB_SERVER_PID env_counts_08 \<notin> fst ` set (procs0 env_counts_08)"
    "PRISM_PID env_counts_08 \<noteq> WEB_SERVER_PID env_counts_08"
    by simp_all
  from cleanup_only_on_completed_run [OF fresh] cleanup_only_on_completed_run [OF fresh']
    cleanup_only_on_completed_run [OF fresh''] fresh pbt_failed_count_env_ok
  show ?thesis
    by simp
qed

text \<open>
  C2 does not hold as stated. With one failed contract scenario the analysis counts one
  issue and writes \<open>1 issues found\<close> in the summary, and the script leaves with
  status 0.
\<close>

theorem exit_zero_with_issues_counterexample:
  "fst (run_qa_playbook env_karate_failed) = 0
   \<and> issue_count env_karate_failed = 1
   \<and> map_option sum_overall (analysis_summary (snd (run_qa_playbook env_karate_failed)))
       = Some (ISSUES_FOUND 1)"
proof -
  have ok: "curl_mock env_karate_failed = 0 \<or> curl_mock env_karate_failed = 22"
    "exit_status env_karate_failed Validate = 0" "exit_status env_karate_failed Pbt = 0"
    by simp_all
  from run_completed(1,5) [OF ok] issue_count_env_karate_failed
    pbt_failed_count_env_karate_failed
  show ?thesis
    by simp
qed

text \<open>
  C2, amended. A run that gets past the health check, the bundle validation and the
  property-test command, and in which the shell can evaluate
  \<^verbatim>\<open>$((PBT_TOTAL - PBT_PASSED))\<close> for the summary, leaves with status 0 whatever the
  number of issues is; that number only decides the overall status written in the
  summary and the closing message (\<open>All steps completed successfully!\<close> at zero,
  \<open>Playbook completed with ... warning(s)\<close> otherwise). A run where the health check
  or the bundle validation fails leaves with status 1. The number of issues is one for
  failed contract scenarios, one for no UI test passed, one for a mutation score below
  80 and one for property tests passed different from total.
\<close>

theorem exit_status_of_completed_run:
  "((curl_mock e = 0 \<or> curl_mock e = 22) \<and> exit_status e Validate = 0
      \<and> exit_status e Pbt = 0 \<and> pbt_failed_count e \<noteq> None \<longrightarrow>
      fst (run_qa_playbook e) = 0
    \<and> map_option sum_overall (analysis_summary (snd (run_qa_playbook e)))
        = Some (if issue_count e = 0 then EXCELLENT else ISSUES_FOUND (issue_count e))
    \<and> last (trace (snd (run_qa_playbook e)))
        = (if issue_count e = 0 then Say GREEN ''All steps completed successfully!''
           else Say YELLOW ''Playbook completed with $TOTAL_ISSUES warning(s)''))
   \<and> (\<not> (curl_mock e = 0 \<or> curl_mock e = 22) \<or> exit_status e Validate \<noteq> 0 \<longrightarrow>
        fst (run_qa_playbook e) = 1)
   \<and> issue_count e =
        (if test_gt (default0 (cap_karate_failed e)) 0 then 1 else 0)
      + (if test_eq (cap_ui e) 0 then 1 else 0)
      + (if bc_lt (final_mutation_score (stryker_log e)) 80 then 1 else 0)
      + (if test_ne2 (default0 (cap_pbt_passed e)) (default0 (cap_pbt_total e)) then 1 else 0)
   \<and> pbt_failed_count e
        = arith_sub (arith_other e) (default0 (cap_pbt_total e)) (default0 (cap_pbt_passed e))"
proof (intro conjI impI)
  assume ok: "(curl_mock e = 0 \<or> curl_mock e = 22) \<and> exit_status e Validate = 0
                \<and> exit_status e Pbt = 0 \<and> pbt_failed_count e \<noteq> None"
  then have h: "curl_mock e = 0 \<or> curl_mock e = 22" "exit_status e Validate = 0"
    "exit_status e Pbt = 0" and num: "pbt_failed_count e \<noteq> None"
    by simp_all
  show "fst (run_qa_playbook e) = 0"
    using run_completed(1) [OF h] num by simp
  show "map_option sum_overall (analysis_summary (snd (run_qa_playbook e)))
          = Some (if issue_count e = 0 then EXCELLENT else ISSUES_FOUND (issue_count e))"
    using run_completed(5) [OF h] num by simp
  show "last (trace (snd (run_qa_playbook e)))
        = (if issue_count e = 0 then Say GREEN ''All steps completed successfully!''
           else Say YELLOW ''Playbook completed with $TOTAL_ISSUES warning(s)'')"
    by (rule run_completed_last [OF h num])
next
  assume bad: "\<not> (curl_mock e = 0 \<or> curl_mock e = 22) \<or> exit_status e Validate \<noteq> 0"
  show "fst (run_qa_playbook e) = 1"
    by (rule run_aborted_early(1) [OF bad])
next
  show "issue_count e =
        (if test_gt (default0 (cap_karate_failed e)) 0 then 1 else 0)
      + (if test_eq (cap_ui e) 0 then 1 else 0)
      + (if bc_lt (final_mutation_score (stryker_log e)) 80 then 1 else 0)
      + (if test_ne2 (default0 (cap_pbt_passed e)) (default0 (cap_pbt_total e)) then 1 else 0)"
    by (rule issue_count_sum)
  show "pbt_failed_count e
        = arith_sub (arith_other e) (default0 (cap_pbt_total e)) (default0 (cap_pbt_passed e))"
    by (rule pbt_failed_count_eq)
qed

text \<open>
  C2, amended, at the run where everything succeeds, at the run with one failed contract
  scenario and at the run without mock server.
\<close>

theorem exit_status_of_completed_run_witness:
  "curl_mock env_ok = 22 \<and> exit_status env_ok Validate = 0 \<and> exit_status env_ok Pbt = 0
   \<and> pbt_failed_count env_ok = Some 0
   \<and> issue_count env_ok = 0
   \<and> fst (run_qa_playbook env_ok) = 0
   \<and> map_option sum_overall (analysis_summary (snd (run_qa_playbook env_ok))) = Some EXCELLENT
   \<and> last (trace (snd (run_qa_playbook env_ok))) = Say GREEN ''All steps completed successfully!''
   \<and> pbt_failed_count env_karate_failed = Some 0
   \<and> issue_count env_karate_failed = 1
   \<and> fst (run_qa_playbook env_karate_failed) = 0
   \<and> last (trace (snd (run_qa_playbook env_karate_failed)))
       = Say YELLOW ''Playbook completed with $TOTAL_ISSUES warning(s)''
   \<and> curl_mock env_mock_down = 7
   \<and> fst (run_qa_playbook env_mock_down) = 1"
proof -
  have a: "fst (run_qa_playbook env_ok) = 0
    \<and> map_option sum_overall (analysis_summary (snd (run_qa_playbook env_ok)))
        = Some (if issue_count env_ok = 0 then EXCELLENT else ISSUES_FOUND (issue_count env_ok))
    \<and> last (trace (snd (run_qa_playbook env_ok)))
        = (if issue_count env_ok = 0 then Say GREEN ''All steps completed successfully!''
           else Say YELLOW ''Playbook completed with $TOTAL_ISSUES warning(s)'')"
    by (rule exit_status_of_completed_run [of env_ok, THEN conjunct1, THEN mp])
       (simp add: pbt_failed_count_env_ok)
  have b: "fst (run_qa_playbook env_karate_failed) = 0
    \<and> map_option sum_overall (analysis_summary (snd (run_qa_playbook env_karate_failed)))
        = Some (if issue_count env_karate_failed = 0 then EXCELLENT
                else ISSUES_FOUND (issue_count env_karate_failed))
    \<and> last (trace (snd (run_qa_playbook env_karate_failed)))
        = (if issue_count env_karate_failed = 0
           then Say GREEN ''All steps completed successfully!''
           else Say YELLOW ''Playbook completed with $TOTAL_ISSUES warning(s)'')"
    by (rule exit_status_of_completed_run [of env_karate_failed, THEN conjunct1, THEN mp])
       (simp add: pbt_failed_count_env_karate_failed)
  have c: "fst (run_qa_playbook env_mock_down) = 1"
    by (rule exit_status_of_completed_run [of env_mock_down, THEN conjunct2, THEN conjunct1,
          THEN mp]) simp
  from a b c show ?thesis
    by (simp add: issue_count_env_ok issue_count_env_karate_failed pbt_failed_count_env_ok
        pbt_failed_count_env_karate_failed)
qed

text \<open>
  C3 does not hold as stated. When the bundle validation fails, no later stage is invoked,
  but the script does not go on to cleanup or analysis either: nothing is removed,
  \<^verbatim>\<open>.env.mock\<close> stays, and no summary is written.
\<close>

theorem no_cleanup_after_bundle_failure_counterexample:
  "exit_status env_bundle_invalid Validate \<noteq> 0
   \<and> stages_run (trace (snd (run_qa_playbook env_bundle_invalid))) = [Validate]
   \<and> removals (trace (snd (run_qa_playbook env_bundle_invalid))) = 0
   \<and> analysis_summary (snd (run_qa_playbook env_bundle_invalid)) = None
   \<and> file_exists ''.env.mock'' (snd (run_qa_playbook env_bundle_invalid))"
proof -
  have bad: "\<not> (curl_mock env_bundle_invalid = 0 \<or> curl_mock env_bundle_invalid = 22)
             \<or> exit_status env_bundle_invalid Validate \<noteq> 0"
    by simp
  from run_aborted_early(2,3,6,7) [OF bad]
  show ?thesis
    by simp
qed

text \<open>
  C3, amended. When the mock server is up and the bundle validation leaves with a nonzero
  status, the validation is the only stage command invoked in the run, and the script
  leaves at once with status 1: without cleanup (nothing removed, \<^verbatim>\<open>.env.mock\<close> in
  place, both services still there) and without analysis (no summary).
\<close>

theorem bundle_failure_stops_run:
  assumes "curl_mock e = 0 \<or> curl_mock e = 22" and "exit_status e Validate \<noteq> 0"
  shows "fst (run_qa_playbook e) = 1
       \<and> stages_run (trace (snd (run_qa_playbook e))) = [Validate]
       \<and> removals (trace (snd (run_qa_playbook e))) = 0
       \<and> analysis_summary (snd (run_qa_playbook e)) = None
       \<and> file_exists ''.env.mock'' (snd (run_qa_playbook e))
       \<and> running (PRISM_PID e) (snd (run_qa_playbook e))
       \<and> running (WEB_SERVER_PID e) (snd (run_qa_playbook e))"
proof -
  have bad: "\<not> (curl_mock e = 0 \<or> curl_mock e = 22) \<or> exit_status e Validate \<noteq> 0"
    using assms(2) by simp
  from run_aborted_early [OF bad] assms(1)
  show ?thesis
    by auto
qed

text \<open>
  C3, amended, at the run with an invalid bundle.
\<close>

theorem bundle_failure_stops_run_witness:
  "curl_mock env_bundle_invalid = 22
   \<and> exit_status env_bundle_invalid Validate = 2
   \<and> fst (run_qa_playbook env_bundle_invalid) = 1
   \<and> stages_run (trace (snd (run_qa_playbook env_bundle_invalid))) = [Validate]
   \<and> removals (trace (snd (run_qa_playbook env_bundle_invalid))) = 0
   \<and> analysis_summary (snd (run_qa_playbook env_bundle_invalid)) = None
   \<and> file_exists ''.env.mock'' (snd (run_qa_playbook env_bundle_invalid))
   \<and> running 4001 (snd (run_qa_playbook env_bundle_invalid))
   \<and> running 4002 (snd (run_qa_playbook env_bundle_invalid))"
proof -
  have h: "curl_mock env_bundle_invalid = 0 \<or> curl_mock env_bundle_invalid = 22"
    "exit_status env_bundle_invalid Validate \<noteq> 0"
    by simp_all
  from bundle_failure_stops_run [OF h]
  show ?thesis
    by simp
qed

text \<open>
  C4, the run where the property tests fail. The stages before it are all invoked, the
  property-test command leaves with status 1, and the script ends there with that status:
  the command is the last thing the run does, the message \<open>PBT tests failed\<close> of
  line 179 is not printed, no analysis summary is written, and the cleanup does not run.
\<close>

theorem pbt_failure_ends_script:
  "exit_status env_pbt_failed Pbt = 1
   \<and> fst (run_qa_playbook env_pbt_failed) = 1
   \<and> stages_run (trace (snd (run_qa_playbook env_pbt_failed)))
       = [Validate, Karate, WdioUi, WdioApi, Mutation, Pbt]
   \<and> last (trace (snd (run_qa_playbook env_pbt_failed))) = Run Pbt
   \<and> analysis_summary (snd (run_qa_playbook env_pbt_failed)) = None
   \<and> removals (trace (snd (run_qa_playbook env_pbt_failed))) = 0
   \<and> running 4001 (snd (run_qa_playbook env_pbt_failed))
   \<and> running 4002 (snd (run_qa_playbook env_pbt_failed))"
proof -
  have h: "curl_mock env_pbt_failed = 0 \<or> curl_mock env_pbt_failed = 22"
    "exit_status env_pbt_failed Validate = 0" "exit_status env_pbt_failed Pbt \<noteq> 0"
    by simp_all
  have l: "last (trace (snd (run_qa_playbook env_pbt_failed))) = Run Pbt"
    by (simp add: run_cases step6_def Let_def)
  from run_pbt_aborted [OF h] l
  show ?thesis
    by simp
qed

subsection \<open>Metric extraction and thresholds\<close>

text \<open>
  C7. For a mutation score that \<open>bc\<close> reads as the number \<open>v\<close>: at \<open>v = 80\<close> the
  status line is the green \<open>GOOD (>=80%)\<close> and the overall assessment is left as it was
  (no issue, as for every \<open>v \<ge> 80\<close>); at \<open>v < 80\<close> the counter \<open>TOTAL_ISSUES\<close> goes
  up by one, the yellow line \<open>Mutation score below 80%\<close> is echoed, and the status line
  is not green.
\<close>

theorem mutation_threshold_boundary:
  assumes "bc_value (MUTATION_SCORE m) = Some v"
  shows "(v = 80 \<longrightarrow>
            check_score m a = a
          \<and> mutation_status (MUTATION_SCORE m) = (GREEN, ''GOOD (>=80%)''))
       \<and> (80 \<le> v \<longrightarrow>
            check_score m a = a
          \<and> TOTAL_ISSUES m = TOTAL_ISSUES (m\<lparr>MUTATION_SCORE := ''80''\<rparr>))
       \<and> (v < 80 \<longrightarrow>
            check_score m a
              = (fst a + 1,
                 snd a @ [(YELLOW, ''Mutation score below 80% - consider adding more tests'')])
          \<and> TOTAL_ISSUES m = TOTAL_ISSUES (m\<lparr>MUTATION_SCORE := ''80''\<rparr>) + 1
          \<and> fst (mutation_status (MUTATION_SCORE m)) \<noteq> GREEN)"
proof -
  have eighty: "bc_value ''80'' = Some 80"
    by (simp add: bc_value_def is_digit_def dec_def digit_val_def)
  show ?thesis
    using assms
    by (simp add: check_score_def mutation_status_def bc_lt_def bc_ge_def TOTAL_ISSUES_sum eighty)
qed

text \<open>
  C7, at the scores \<open>80\<close> and \<open>79.99\<close>.
\<close>

theorem mutation_threshold_boundary_witness:
  "bc_value (MUTATION_SCORE metrics_at_threshold) = Some 80
   \<and> check_score metrics_at_threshold (0, []) = (0, [])
   \<and> mutation_status (MUTATION_SCORE metrics_at_threshold) = (GREEN, ''GOOD (>=80%)'')
   \<and> bc_value (MUTATION_SCORE (metrics_at_threshold\<lparr>MUTATION_SCORE := ''79.99''\<rparr>))
        = Some (7999 / 100)
   \<and> check_score (metrics_at_threshold\<lparr>MUTATION_SCORE := ''79.99''\<rparr>) (0, [])
        = (1, [(YELLOW, ''Mutation score below 80% - consider adding more tests'')])"
proof -
  have at: "bc_value (MUTATION_SCORE metrics_at_threshold) = Some 80"
    by (simp add: metrics_at_threshold_def bc_value_def is_digit_def dec_def digit_val_def)
  have below: "bc_value (MUTATION_SCORE (metrics_at_threshold\<lparr>MUTATION_SCORE := ''79.99''\<rparr>))
                 = Some (7999 / 100)"
    by (simp add: bc_value_def is_digit_def dec_def digit_val_def)
  from mutation_threshold_boundary [OF at, of "(0, [])"]
       mutation_threshold_boundary [OF below, of "(0, [])"] at below
  show ?thesis
    by simp
qed





subsection \<open>Stopping the services\<close>

text \<open>
  C6 does not hold as stated. A pager opened on a file whose name contains
  \<^verbatim>\<open>prism mock\<close> is not one of the two services, and the cleanup signals it and it
  ends.
\<close>

theorem stop_hits_bystander_counterexample:
  "(5150, ''less docs/prism mock setup.md'') \<in> set (procs state_before_cleanup)
   \<and> times_signalled 5150 (trace (step8 state_before_cleanup)) = 1
   \<and> \<not> running 5150 (step8 state_before_cleanup)"
  by (simp add: state_before_cleanup_def running_def)

lemma same_pid_same_cmd:
  "distinct (map fst ps) \<Longrightarrow> (p, c) \<in> set ps \<Longrightarrow> (\<exists>c'. (p, c') \<in> set ps \<and> Q c') = Q c"
  by (auto dest: eq_key_imp_eq_value)

text \<open>
  C6, amended. The cleanup signals a process exactly when its command line matches
  \<^verbatim>\<open>prism mock\<close> or \<^verbatim>\<open>node server.cjs\<close>, whatever its identifier is, and these
  are the processes that are gone afterwards. (The cleanup does not read
  \<open>PRISM_PID\<close> or \<open>WEB_SERVER_PID\<close>: \<open>step8\<close> has no such argument.)
\<close>

theorem stop_is_by_pattern:
  assumes "distinct (map fst (procs s))" and "(p, c) \<in> set (procs s)"
  shows "times_signalled p (trace (step8 s))
           = times_signalled p (trace s)
             + (if search ''prism mock'' c \<or> search ''node server.cjs'' c then 1 else 0)
       \<and> running p (step8 s) = (\<not> search ''prism mock'' c \<and> \<not> search ''node server.cjs'' c)"
  using assms
  by (auto simp: same_pid_same_cmd running_def in_fst_filter dest: eq_key_imp_eq_value)

text \<open>
  C6, amended, at the mock server, which is signalled, and at \<open>init\<close>, which is not.
\<close>

theorem stop_is_by_pattern_witness:
  "distinct (map fst (procs state_before_cleanup))
   \<and> (4001, ''npx prism mock openapi/reservations.yaml --port 4010 --host 127.0.0.1'')
        \<in> set (procs state_before_cleanup)
   \<and> times_signalled 4001 (trace (step8 state_before_cleanup)) = 1
   \<and> \<not> running 4001 (step8 state_before_cleanup)
   \<and> (1, ''/sbin/init'') \<in> set (procs state_before_cleanup)
   \<and> times_signalled 1 (trace (step8 state_before_cleanup)) = 0
   \<and> running 1 (step8 state_before_cleanup)"
proof -
  have d: "distinct (map fst (procs state_before_cleanup))"
    and a: "(4001, ''npx prism mock openapi/reservations.yaml --port 4010 --host 127.0.0.1'')
              \<in> set (procs state_before_cleanup)"
    and b: "(1, ''/sbin/init'') \<in> set (procs state_before_cleanup)"
    and t: "trace state_before_cleanup = []"
    by (simp_all add: state_before_cleanup_def)
  from stop_is_by_pattern [OF d a] stop_is_by_pattern [OF d b] d a b t
  show ?thesis
    by simp
qed

subsection \<open>Determinism of the analysis\<close>

lemma clock_steps [simp]:
  "step1 (e\<lparr>clock := d\<rparr>) s = step1 e s"
  "step2 (e\<lparr>clock := d\<rparr>) s = step2 e s"
  "step3 (e\<lparr>clock := d\<rparr>) s = step3 e s"
  "step4 (e\<lparr>clock := d\<rparr>) s = step4 e s"
  "step5 (e\<lparr>clock := d\<rparr>) s = step5 e s"
  "step6 (e\<lparr>clock := d\<rparr>) s = step6 e s"
  "step7 (e\<lparr>clock := d\<rparr>) s = step7 e s"
  "initial (e\<lparr>clock := d\<rparr>) = initial e"
  "extract_metrics (e\<lparr>clock := d\<rparr>) s = extract_metrics e s"
  by (simp_all add: step1_def step2_def step3_def step4_def step5_def step6_def step7_def
      initial_def extract_metrics_def cong: if_cong)

lemma clock_counts [simp]:
  "issue_count (e\<lparr>clock := d\<rparr>) = issue_count e"
  "pbt_failed_count (e\<lparr>clock := d\<rparr>) = pbt_failed_count e"
  by (simp_all add: issue_count_sum pbt_failed_count_eq)

lemma clock_final_analysis:
  "trace (state_of (final_analysis (e\<lparr>clock := d\<rparr>) s)) = trace (state_of (final_analysis e s))"
  by (simp add: final_analysis_def make_summary_def cong: if_cong)
     (simp add: Let_def split: option.split)

text \<open>
  C8. The clock enters the analysis only as the date of the summary. Two summaries of
  the same variables differ in the date alone; and two runs that differ in the clock
  alone leave with the same status, do the same things in the same order (the echoed
  issue lines among them), count the same issues and write the same overall status.
\<close>

theorem analysis_independent_of_clock:
  "make_summary d1 v = map_option (\<lambda>t. t\<lparr>sum_date := d1\<rparr>) (make_summary d2 v)
   \<and> map_option sum_overall (make_summary d1 v) = map_option sum_overall (make_summary d2 v)
   \<and> issues (extract_metrics (e\<lparr>clock := d1\<rparr>) s) = issues (extract_metrics e s)
   \<and> issue_count (e\<lparr>clock := d1\<rparr>) = issue_count e
   \<and> fst (run_qa_playbook (e\<lparr>clock := d1\<rparr>)) = fst (run_qa_playbook e)
   \<and> trace (snd (run_qa_playbook (e\<lparr>clock := d1\<rparr>))) = trace (snd (run_qa_playbook e))
   \<and> map_option sum_overall (analysis_summary (snd (run_qa_playbook (e\<lparr>clock := d1\<rparr>))))
       = map_option sum_overall (analysis_summary (snd (run_qa_playbook e)))
   \<and> map_option sum_date (analysis_summary (snd (run_qa_playbook (e\<lparr>clock := d1\<rparr>))))
       = map_option (\<lambda>x. d1) (analysis_summary (snd (run_qa_playbook e)))"
proof (intro conjI)
  show "make_summary d1 v = map_option (\<lambda>t. t\<lparr>sum_date := d1\<rparr>) (make_summary d2 v)"
    by (simp add: make_summary_def split: option.split)
  show "map_option sum_overall (make_summary d1 v) = map_option sum_overall (make_summary d2 v)"
    by (simp add: make_summary_def split: option.split)
  show "issues (extract_metrics (e\<lparr>clock := d1\<rparr>) s) = issues (extract_metrics e s)"
    by simp
  show "issue_count (e\<lparr>clock := d1\<rparr>) = issue_count e"
    by simp
  show "fst (run_qa_playbook (e\<lparr>clock := d1\<rparr>)) = fst (run_qa_playbook e)"
    by (simp add: run_cases)
  show "trace (snd (run_qa_playbook (e\<lparr>clock := d1\<rparr>))) = trace (snd (run_qa_playbook e))"
    by (simp add: run_cases clock_final_analysis)
  show "map_option sum_overall (analysis_summary (snd (run_qa_playbook (e\<lparr>clock := d1\<rparr>))))
       = map_option sum_overall (analysis_summary (snd (run_qa_playbook e)))"
    by (simp add: run_cases final_analysis_summary del: not_None_eq)
  show "map_option sum_date (analysis_summary (snd (run_qa_playbook (e\<lparr>clock := d1\<rparr>))))
       = map_option (\<lambda>x. d1) (analysis_summary (snd (run_qa_playbook e)))"
    by (simp add: run_cases final_analysis_summary del: not_None_eq)
qed


text \<open>
  C8, at the run with one failed contract scenario, started at another time.
\<close>

theorem analysis_independent_of_clock_witness:
  "fst (run_qa_playbook (env_karate_failed\<lparr>clock := ''2031-12-31 23:59:59''\<rparr>))
     = fst (run_qa_playbook env_karate_failed)
   \<and> trace (snd (run_qa_playbook (env_karate_failed\<lparr>clock := ''2031-12-31 23:59:59''\<rparr>)))
     = trace (snd (run_qa_playbook env_karate_failed))
   \<and> map_option sum_overall
        (analysis_summary (snd (run_qa_playbook (env_karate_failed\<lparr>clock := ''2031-12-31 23:59:59''\<rparr>))))
     = Some (ISSUES_FOUND 1)"
proof -
  have ok: "curl_mock env_karate_failed = 0 \<or> curl_mock env_karate_failed = 22"
    "exit_status env_karate_failed Validate = 0" "exit_status env_karate_failed Pbt = 0"
    by simp_all
  have "map_option sum_overall (analysis_summary (snd (run_qa_playbook env_karate_failed)))
          = Some (ISSUES_FOUND 1)"
    using run_completed(5) [OF ok] issue_count_env_karate_failed
      pbt_failed_count_env_karate_failed by simp
  with analysis_independent_of_clock
         [of "''2031-12-31 23:59:59''" "extract_metrics env_karate_failed (initial env_karate_failed)"
             "clock env_karate_failed" env_karate_failed "initial env_karate_failed"]
  show ?thesis
    by (elim conjE) simp
qed

end
